theory Spec2Isabelle
  imports Main "HOL-Library.Word" "HOL-Library.AList"
begin

section \<open>JavaScript values used by the vault and the reducer\<close>

text \<open>
  A JavaScript string is a sequence of 16-bit code units; a \<open>Uint8Array\<close> is a sequence
  of bytes.  \<open>js\<close> turns an ASCII literal of this theory into a JavaScript string.
\<close>

type_synonym jschar = "16 word"
type_synonym jsstring = "jschar list"
type_synonym byte = "8 word"
type_synonym bytes = "byte list"

definition js :: "string \<Rightarrow> jsstring" where
  "js s = map (\<lambda>c. of_nat (of_char c)) s"

text \<open>\<open>String.fromCharCode(bytes[i])\<close> and \<open>bytes[i] = s.charCodeAt(i)\<close> (a store into a
  \<open>Uint8Array\<close> keeps the low eight bits).\<close>

definition String_fromCharCode :: "byte \<Rightarrow> jschar" where
  "String_fromCharCode b = of_nat (unat b)"

definition store_Uint8 :: "jschar \<Rightarrow> byte" where
  "store_Uint8 c = of_nat (unat c mod 256)"

section \<open>\<open>window.btoa\<close> and \<open>window.atob\<close>\<close>

text \<open>
  The two browser functions under \<open>bufferToBase64\<close> and \<open>base64ToBuffer\<close>, after the
  WHATWG standard: \<open>btoa\<close> is base64 with padding (RFC 4648) and throws
  \<open>InvalidCharacterError\<close> on a code unit above 255; \<open>atob\<close> is the forgiving-base64
  decoder: it removes ASCII whitespace, drops one or two trailing \<open>=\<close> when the length
  is a multiple of four, fails when the length is then 1 modulo 4 or a character is
  outside the alphabet, and discards the unused low bits of a final partial group.
\<close>

definition b64_char :: "nat \<Rightarrow> nat" where
  "b64_char n =
     (if n < 26 then 65 + n
      else if n < 52 then 71 + n
      else if n < 62 then n - 4
      else if n = 62 then 43
      else 47)"

definition b64_index :: "nat \<Rightarrow> nat option" where
  "b64_index u =
     (if 65 \<le> u \<and> u \<le> 90 then Some (u - 65)
      else if 97 \<le> u \<and> u \<le> 122 then Some (u - 71)
      else if 48 \<le> u \<and> u \<le> 57 then Some (u + 4)
      else if u = 43 then Some 62
      else if u = 47 then Some 63
      else None)"

text \<open>Encoding of a list of byte values into character codes, three bytes at a time,
  with \<open>=\<close> (code 61) as padding; decoding of a list of sextets, four at a time.\<close>

fun b64_encode :: "nat list \<Rightarrow> nat list" where
  "b64_encode (x # y # z # rest) =
     (let n = (x * 256 + y) * 256 + z in
      b64_char (n div 262144) # b64_char (n div 4096 mod 64) #
      b64_char (n div 64 mod 64) # b64_char (n mod 64) # b64_encode rest)"
| "b64_encode [x, y] =
     (let n = (x * 256 + y) * 4 in
      [b64_char (n div 4096), b64_char (n div 64 mod 64), b64_char (n mod 64), 61])"
| "b64_encode [x] =
     (let n = x * 16 in [b64_char (n div 64), b64_char (n mod 64), 61, 61])"
| "b64_encode [] = []"

fun b64_decode :: "nat list \<Rightarrow> nat list" where
  "b64_decode (a # b # c # d # rest) =
     (let n = ((a * 64 + b) * 64 + c) * 64 + d in
      n div 65536 # n div 256 mod 256 # n mod 256 # b64_decode rest)"
| "b64_decode [a, b, c] =
     (let n = ((a * 64 + b) * 64 + c) div 4 in [n div 256, n mod 256])"
| "b64_decode [a, b] = [(a * 64 + b) div 16]"
| "b64_decode [a] = []"
| "b64_decode [] = []"

text \<open>What can be thrown: \<open>new Error(message)\<close> by the vault, and the exceptions of
  the platform.\<close>

datatype error =
    Error string
  | SyntaxError
  | TypeError
  | InvalidCharacterError
  | OperationError
  | QuotaExceededError

definition btoa :: "jsstring \<Rightarrow> error + jsstring" where
  "btoa s =
     (if \<exists>c \<in> set s. 255 < unat c then Inl InvalidCharacterError
      else Inr (map of_nat (b64_encode (map unat s))))"

definition ascii_whitespace :: "nat \<Rightarrow> bool" where
  "ascii_whitespace c \<longleftrightarrow> c = 9 \<or> c = 10 \<or> c = 12 \<or> c = 13 \<or> c = 32"

definition strip_padding :: "nat list \<Rightarrow> nat list" where
  "strip_padding d =
     (if length d mod 4 = 0 then
        (if 2 \<le> length d \<and> last d = 61 \<and> last (butlast d) = 61 then butlast (butlast d)
         else if 1 \<le> length d \<and> last d = 61 then butlast d
         else d)
      else d)"

definition atob :: "jsstring \<Rightarrow> error + jsstring" where
  "atob s =
     (let d = strip_padding (filter (\<lambda>c. \<not> ascii_whitespace c) (map unat s)) in
      if length d mod 4 = 1 then Inl InvalidCharacterError
      else if \<exists>c \<in> set d. b64_index c = None then Inl InvalidCharacterError
      else Inr (map of_nat (b64_decode (map (\<lambda>c. the (b64_index c)) d))))"

text \<open>The sextets and the padding of an encoding, for the proofs.\<close>

fun b64_sextets :: "nat list \<Rightarrow> nat list" where
  "b64_sextets (x # y # z # rest) =
     (let n = (x * 256 + y) * 256 + z in
      n div 262144 # n div 4096 mod 64 # n div 64 mod 64 # n mod 64 # b64_sextets rest)"
| "b64_sextets [x, y] =
     (let n = (x * 256 + y) * 4 in [n div 4096, n div 64 mod 64, n mod 64])"
| "b64_sextets [x] = (let n = x * 16 in [n div 64, n mod 64])"
| "b64_sextets [] = []"

fun b64_pad :: "nat list \<Rightarrow> nat list" where
  "b64_pad (x # y # z # rest) = b64_pad rest"
| "b64_pad [x, y] = [61]"
| "b64_pad [x] = [61, 61]"
| "b64_pad [] = []"

section \<open>The codec helpers of the vault\<close>

text \<open>
  \<open>bufferToBase64\<close> and \<open>base64ToBuffer\<close> are the same in \<open>src/lib/HeraVault.ts\<close>,
  in the v96 \<open>HeraVault\<close> and in \<open>HeraSecurity\<close>: a loop that appends
  \<open>String.fromCharCode(bytes[i])\<close> to \<open>binary\<close> and a call of \<open>btoa\<close>; a call of
  \<open>atob\<close> and a loop that stores \<open>charCodeAt(i)\<close> into a \<open>Uint8Array\<close>.
\<close>

definition bufferToBase64 :: "bytes \<Rightarrow> error + jsstring" where
  "bufferToBase64 buffer =
     btoa (foldl (\<lambda>binary b. binary @ [String_fromCharCode b]) [] buffer)"

definition base64ToBuffer :: "jsstring \<Rightarrow> error + bytes" where
  "base64ToBuffer base64 =
     (case atob base64 of
        Inl e \<Rightarrow> Inl e
      | Inr binary_string \<Rightarrow> Inr (map store_Uint8 binary_string))"

section \<open>The reducer of \<open>src/lib/store.ts\<close>\<close>

text \<open>
  The state types of \<open>src/lib/types.ts\<close>.  A JavaScript number is a value of the type
  parameter \<open>'n\<close>: neither the reducer nor the vault computes with numbers.
\<close>

datatype Theme = blush | serenity | nature
datatype Unit = unit_C | unit_F
datatype Language = en | es | fr
datatype FlowIntensity = flow_none | spotting | light | medium | heavy
datatype MucusType = mucus_none | dry | sticky | creamy | eggwhite | watery
datatype CervixPosition = low_hard | med_firm | high_soft
datatype LHResult = negative | faint | lh_equal | peak

record 'n CycleDay =
  date :: jsstring
  temperature :: "'n option"
  mucus :: MucusType
  flow :: FlowIntensity
  cervix :: CervixPosition
  lhTest :: LHResult
  stressLevel :: 'n
  day_notes :: jsstring

record UserProfile =
  name :: jsstring
  theme :: Theme
  unit :: Unit
  lang :: Language

text \<open>\<open>Partial<UserProfile>\<close>: each field present or absent.\<close>

record PartialUserProfile =
  p_name :: "jsstring option"
  p_theme :: "Theme option"
  p_unit :: "Unit option"
  p_lang :: "Language option"

record 'n AppState =
  profile :: UserProfile
  cycleData :: "'n CycleDay list"
  lastSynced :: 'n
  unsavedChanges :: bool

datatype 'n Action =
    LOAD_STATE "'n AppState"
  | UPDATE_PROFILE PartialUserProfile
  | UPDATE_CYCLE_DAY "'n CycleDay"
  | RESET_APP
  | MARK_SAVED

text \<open>\<open>DEFAULT_STATE\<close>; \<open>loaded\<close> is the value of \<open>Date.now()\<close> when the module was
  loaded.\<close>

definition DEFAULT_STATE :: "'n \<Rightarrow> 'n AppState" where
  "DEFAULT_STATE loaded =
     \<lparr>profile = \<lparr>name = js ''Hera'', theme = blush, unit = unit_C, lang = en\<rparr>,
      cycleData = [], lastSynced = loaded, unsavedChanges = False\<rparr>"

text \<open>\<open>Array.prototype.findIndex\<close>: the first index whose element satisfies the
  predicate, or \<open>-1\<close>.\<close>

fun findIndex_from :: "int \<Rightarrow> ('a \<Rightarrow> bool) \<Rightarrow> 'a list \<Rightarrow> int" where
  "findIndex_from i P [] = -1"
| "findIndex_from i P (x # xs) = (if P x then i else findIndex_from (i + 1) P xs)"

definition findIndex :: "('a \<Rightarrow> bool) \<Rightarrow> 'a list \<Rightarrow> int" where
  "findIndex P xs = findIndex_from 0 P xs"

definition merge_profile :: "UserProfile \<Rightarrow> PartialUserProfile \<Rightarrow> UserProfile" where
  "merge_profile old new =
     \<lparr>name = (case p_name new of None \<Rightarrow> name old | Some v \<Rightarrow> v),
      theme = (case p_theme new of None \<Rightarrow> theme old | Some v \<Rightarrow> v),
      unit = (case p_unit new of None \<Rightarrow> unit old | Some v \<Rightarrow> v),
      lang = (case p_lang new of None \<Rightarrow> lang old | Some v \<Rightarrow> v)\<rparr>"

text \<open>\<open>appReducer\<close>; \<open>now\<close> is the value of \<open>Date.now()\<close> at the call.  In
  \<open>UPDATE_CYCLE_DAY\<close> the index is at most the length of the copy, so the assignment
  \<open>newData[existingIndex] = action.payload\<close> is an update in range.\<close>

fun appReducer :: "'n \<Rightarrow> 'n \<Rightarrow> 'n AppState \<Rightarrow> 'n Action \<Rightarrow> 'n AppState" where
  "appReducer loaded now state (LOAD_STATE payload) = payload\<lparr>unsavedChanges := False\<rparr>"
| "appReducer loaded now state (UPDATE_PROFILE payload) =
     state\<lparr>profile := merge_profile (profile state) payload, unsavedChanges := True\<rparr>"
| "appReducer loaded now state (UPDATE_CYCLE_DAY payload) =
     (let existingIndex = findIndex (\<lambda>d. date d = date payload) (cycleData state);
          newData = cycleData state;
          newData = (if existingIndex \<ge> 0 then newData[nat existingIndex := payload]
                     else newData @ [payload])
      in state\<lparr>cycleData := newData, unsavedChanges := True\<rparr>)"
| "appReducer loaded now state RESET_APP = DEFAULT_STATE loaded"
| "appReducer loaded now state MARK_SAVED = state\<lparr>unsavedChanges := False, lastSynced := now\<rparr>"

section \<open>Values returned by \<open>JSON.parse\<close>\<close>

text \<open>
  The vault passes its state to \<open>JSON.stringify\<close> and returns what \<open>JSON.parse\<close>
  yields, without looking inside: the type annotations \<open>AppState\<close> are erased at run
  time.  A state and a parsed artifact are therefore values of \<open>'n json\<close>; an object is
  the list of its own properties.
\<close>

datatype 'n json =
    JNull
  | JBool bool
  | JNum 'n
  | JStr jsstring
  | JArr "'n json list"
  | JObj "(jsstring \<times> 'n json) list"

text \<open>
  Reading one of the properties \<open>salt\<close>, \<open>iv\<close>, \<open>data\<close>, \<open>authHash\<close> of a parsed value:
  \<open>null\<close> throws a \<open>TypeError\<close>, an object yields its own property or \<open>undefined\<close>
  (\<open>None\<close>), every other value yields \<open>undefined\<close>.
\<close>

definition get_property :: "'n json \<Rightarrow> jsstring \<Rightarrow> error + 'n json option" where
  "get_property v k =
     (case v of
        JNull \<Rightarrow> Inl TypeError
      | JObj kvs \<Rightarrow> Inr (map_of kvs k)
      | _ \<Rightarrow> Inr None)"

text \<open>
  The conversion of the argument of \<open>atob\<close> to a string.  An array is joined with
  commas, \<open>null\<close> elements printing as the empty string; a plain object prints as
  \<open>[object Object]\<close> unless it has an own property \<open>toString\<close>, which is never callable
  in a parsed value, and then the conversion throws a \<open>TypeError\<close>.
\<close>

fun ToString :: "('n \<Rightarrow> jsstring) \<Rightarrow> 'n json \<Rightarrow> error + jsstring"
  and join_elements :: "('n \<Rightarrow> jsstring) \<Rightarrow> 'n json list \<Rightarrow> error + jsstring" where
  "ToString num JNull = Inr (js ''null'')"
| "ToString num (JBool b) = Inr (if b then js ''true'' else js ''false'')"
| "ToString num (JNum n) = Inr (num n)"
| "ToString num (JStr s) = Inr s"
| "ToString num (JArr xs) = join_elements num xs"
| "ToString num (JObj kvs) =
     (if js ''toString'' \<in> fst ` set kvs then Inl TypeError
      else Inr (js ''[object Object]''))"
| "join_elements num [] = Inr []"
| "join_elements num (x # xs) =
     (case (if x = JNull then Inr [] else ToString num x) of
        Inl e \<Rightarrow> Inl e
      | Inr s \<Rightarrow>
          (if xs = [] then Inr s
           else case join_elements num xs of
                  Inl e \<Rightarrow> Inl e
                | Inr r \<Rightarrow> Inr (s @ js '','' @ r)))"

definition ToString_value :: "('n \<Rightarrow> jsstring) \<Rightarrow> 'n json option \<Rightarrow> error + jsstring" where
  "ToString_value num v =
     (case v of None \<Rightarrow> Inr (js ''undefined'') | Some x \<Rightarrow> ToString num x)"

section \<open>The platform\<close>

text \<open>
  \<open>TextEncoder.encode\<close>: the string is read as UTF-16, a surrogate that is not part of
  a pair becomes U+FFFD, and the scalar values are written in UTF-8.
\<close>

fun utf16_scalars :: "nat list \<Rightarrow> nat list" where
  "utf16_scalars [] = []"
| "utf16_scalars [c] = [if 55296 \<le> c \<and> c \<le> 57343 then 65533 else c]"
| "utf16_scalars (c # d # cs) =
     (if 55296 \<le> c \<and> c \<le> 56319 \<and> 56320 \<le> d \<and> d \<le> 57343
      then (65536 + (c - 55296) * 1024 + (d - 56320)) # utf16_scalars cs
      else (if 55296 \<le> c \<and> c \<le> 57343 then 65533 else c) # utf16_scalars (d # cs))"

definition utf8_bytes :: "nat \<Rightarrow> nat list" where
  "utf8_bytes u =
     (if u < 128 then [u]
      else if u < 2048 then [192 + u div 64, 128 + u mod 64]
      else if u < 65536 then [224 + u div 4096, 128 + u div 64 mod 64, 128 + u mod 64]
      else [240 + u div 262144, 128 + u div 4096 mod 64, 128 + u div 64 mod 64,
            128 + u mod 64])"

definition TextEncoder_encode :: "jsstring \<Rightarrow> bytes" where
  "TextEncoder_encode s = map of_nat (concat (map utf8_bytes (utf16_scalars (map unat s))))"

text \<open>\<open>String.prototype.trim\<close> removes white space and line terminators at both ends.\<close>

definition js_whitespace :: "jschar \<Rightarrow> bool" where
  "js_whitespace c \<longleftrightarrow>
     (let u = unat c in
      u = 9 \<or> u = 10 \<or> u = 11 \<or> u = 12 \<or> u = 13 \<or> u = 32 \<or> u = 160 \<or> u = 5760 \<or>
      (8192 \<le> u \<and> u \<le> 8202) \<or> u = 8232 \<or> u = 8233 \<or> u = 8239 \<or> u = 8287 \<or>
      u = 12288 \<or> u = 65279)"

definition trim :: "jsstring \<Rightarrow> jsstring" where
  "trim s = rev (dropWhile js_whitespace (rev (dropWhile js_whitespace s)))"

text \<open>
  The remaining platform functions are parameters of the model: the UTF-8 decoder,
  \<open>JSON.stringify\<close> and \<open>JSON.parse\<close> (\<open>None\<close> is a \<open>SyntaxError\<close>), the printing of
  numbers, PBKDF2 with HMAC-SHA-256 and a 256-bit result (password bytes, salt, iteration
  count), SHA-256, AES-GCM with the key, the IV and the data (encryption under a derived
  key and a fresh 12-byte IV yields a ciphertext; decryption yields \<open>None\<close> when the
  promise rejects), whether \<open>localStorage.setItem\<close> accepts a write (it throws
  \<open>QuotaExceededError\<close> otherwise), and whether \<open>window\<close> is defined.  A raw AES key
  is its bytes, so \<open>exportKey\<close> is the identity.
\<close>

record 'n platform =
  TextDecoder_decode :: "bytes \<Rightarrow> jsstring"
  JSON_stringify :: "'n json \<Rightarrow> jsstring"
  JSON_parse :: "jsstring \<Rightarrow> 'n json option"
  Number_toString :: "'n \<Rightarrow> jsstring"
  PBKDF2 :: "bytes \<Rightarrow> bytes \<Rightarrow> nat \<Rightarrow> bytes"
  SHA256 :: "bytes \<Rightarrow> bytes"
  AES_GCM_encrypt :: "bytes \<Rightarrow> bytes \<Rightarrow> bytes \<Rightarrow> bytes"
  AES_GCM_decrypt :: "bytes \<Rightarrow> bytes \<Rightarrow> bytes \<Rightarrow> bytes option"
  storage_accepts :: "jsstring \<Rightarrow> jsstring \<Rightarrow> bool"
  window_defined :: bool

text \<open>
  The state outside the vault: the content of \<open>localStorage\<close>, the calls made to the
  key derivation and to the cipher so far, the generator behind
  \<open>crypto.getRandomValues\<close> (a sequence of bytes and the number of bytes drawn), and
  the clock read by \<open>Date.now()\<close>.
\<close>

datatype crypto_call =
    DeriveKey bytes bytes
  | Encrypt bytes bytes bytes
  | Decrypt bytes bytes bytes

record 'n world =
  localStorage :: "jsstring \<rightharpoonup> jsstring"
  calls :: "crypto_call list"
  entropy :: "nat \<Rightarrow> byte"
  drawn :: nat
  clock :: 'n

text \<open>An operation takes the world and returns a value or a thrown error, and the new
  world.  \<open>io_catch\<close> is \<open>try { ... } catch (e) { ... }\<close>.\<close>

type_synonym ('a, 'n) io = "'n world \<Rightarrow> (error + 'a) \<times> 'n world"

definition io_return :: "'a \<Rightarrow> ('a, 'n) io" where
  "io_return x = (\<lambda>w. (Inr x, w))"

definition io_throw :: "error \<Rightarrow> ('a, 'n) io" where
  "io_throw e = (\<lambda>w. (Inl e, w))"

definition io_bind :: "('a, 'n) io \<Rightarrow> ('a \<Rightarrow> ('b, 'n) io) \<Rightarrow> ('b, 'n) io" where
  "io_bind m f = (\<lambda>w. case m w of (Inl e, w') \<Rightarrow> (Inl e, w') | (Inr x, w') \<Rightarrow> f x w')"

definition io_catch :: "('a, 'n) io \<Rightarrow> (error \<Rightarrow> ('a, 'n) io) \<Rightarrow> ('a, 'n) io" where
  "io_catch m h = (\<lambda>w. case m w of (Inl e, w') \<Rightarrow> h e w' | (Inr x, w') \<Rightarrow> (Inr x, w'))"

definition io_lift :: "error + 'a \<Rightarrow> ('a, 'n) io" where
  "io_lift r = (\<lambda>w. (r, w))"

definition getRandomValues :: "nat \<Rightarrow> (bytes, 'n) io" where
  "getRandomValues n =
     (\<lambda>w. (Inr (map (entropy w) [drawn w ..< drawn w + n]), w\<lparr>drawn := drawn w + n\<rparr>))"

definition Date_now :: "('n, 'n) io" where
  "Date_now = (\<lambda>w. (Inr (clock w), w))"

definition localStorage_getItem :: "jsstring \<Rightarrow> (jsstring option, 'n) io" where
  "localStorage_getItem k = (\<lambda>w. (Inr (localStorage w k), w))"

definition localStorage_setItem :: "'n platform \<Rightarrow> jsstring \<Rightarrow> jsstring \<Rightarrow> (unit, 'n) io" where
  "localStorage_setItem pf k v =
     (\<lambda>w. if storage_accepts pf k v
          then (Inr (), w\<lparr>localStorage := (localStorage w)(k \<mapsto> v)\<rparr>)
          else (Inl QuotaExceededError, w))"

definition parse :: "'n platform \<Rightarrow> jsstring \<Rightarrow> ('n json, 'n) io" where
  "parse pf s = io_lift (case JSON_parse pf s of None \<Rightarrow> Inl SyntaxError | Some v \<Rightarrow> Inr v)"

definition subtle_encrypt :: "'n platform \<Rightarrow> bytes \<Rightarrow> bytes \<Rightarrow> bytes \<Rightarrow> (bytes, 'n) io" where
  "subtle_encrypt pf iv key plaintext =
     (\<lambda>w. (Inr (AES_GCM_encrypt pf key iv plaintext),
           w\<lparr>calls := calls w @ [Encrypt key iv plaintext]\<rparr>))"

definition subtle_decrypt :: "'n platform \<Rightarrow> bytes \<Rightarrow> bytes \<Rightarrow> bytes \<Rightarrow> (bytes, 'n) io" where
  "subtle_decrypt pf iv key ciphertext =
     (\<lambda>w. (case AES_GCM_decrypt pf key iv ciphertext of
             None \<Rightarrow> Inl OperationError
           | Some plaintext \<Rightarrow> Inr plaintext,
           w\<lparr>calls := calls w @ [Decrypt key iv ciphertext]\<rparr>))"

section \<open>The vault\<close>

definition iterations :: nat where "iterations = 600000"
definition saltLen :: nat where "saltLen = 16"
definition ivLen :: nat where "ivLen = 12"

text \<open>\<open>deriveKey\<close>, the same in every variant: the password is encoded, imported as
  PBKDF2 key material and stretched into an AES-GCM key.\<close>

definition deriveKey :: "'n platform \<Rightarrow> jsstring \<Rightarrow> bytes \<Rightarrow> (bytes, 'n) io" where
  "deriveKey pf password salt =
     (\<lambda>w. (Inr (PBKDF2 pf (TextEncoder_encode password) salt iterations),
           w\<lparr>calls := calls w @ [DeriveKey (TextEncoder_encode password) salt]\<rparr>))"

text \<open>\<open>this.base64ToBuffer(vault.salt)\<close> and its siblings: the property is read, \<open>atob\<close>
  converts it to a string and decodes it.\<close>

definition field_bytes :: "'n platform \<Rightarrow> 'n json \<Rightarrow> jsstring \<Rightarrow> error + bytes" where
  "field_bytes pf vault k =
     (case get_property vault k of
        Inl e \<Rightarrow> Inl e
      | Inr v \<Rightarrow>
          (case ToString_value (Number_toString pf) v of
             Inl e \<Rightarrow> Inl e
           | Inr base64 \<Rightarrow> base64ToBuffer base64))"

definition HERA_VAULT_CORE :: jsstring where
  "HERA_VAULT_CORE = js ''HERA_VAULT_CORE''"

subsection \<open>\<open>HeraVault\<close> of \<open>src/lib/HeraVault.ts\<close> (format \<open>v1.0-forensic\<close>)\<close>

definition HeraVault_lock :: "'n platform \<Rightarrow> 'n json \<Rightarrow> jsstring \<Rightarrow> (unit, 'n) io" where
  "HeraVault_lock pf data password =
     io_catch
       (io_bind (getRandomValues saltLen) (\<lambda>salt.
        io_bind (getRandomValues ivLen) (\<lambda>iv.
        io_bind (deriveKey pf password salt) (\<lambda>key.
        io_bind (subtle_encrypt pf iv key (TextEncoder_encode (JSON_stringify pf data)))
          (\<lambda>ciphertext.
        io_bind (io_lift (bufferToBase64 salt)) (\<lambda>salt64.
        io_bind (io_lift (bufferToBase64 iv)) (\<lambda>iv64.
        io_bind (io_lift (bufferToBase64 ciphertext)) (\<lambda>data64.
        io_bind Date_now (\<lambda>timestamp.
        localStorage_setItem pf HERA_VAULT_CORE
          (JSON_stringify pf
             (JObj [(js ''salt'', JStr salt64), (js ''iv'', JStr iv64),
                    (js ''data'', JStr data64),
                    (js ''version'', JStr (js ''v1.0-forensic'')),
                    (js ''timestamp'', JNum timestamp)])))))))))))
       (\<lambda>error. io_throw (Error ''Security Breach: Encryption Failed.''))"

text \<open>\<open>unlock\<close> returns \<open>null\<close> when nothing (or the empty string) is stored.\<close>

definition HeraVault_unlock :: "'n platform \<Rightarrow> jsstring \<Rightarrow> ('n json, 'n) io" where
  "HeraVault_unlock pf password =
     io_bind (localStorage_getItem HERA_VAULT_CORE) (\<lambda>stored.
       case stored of
         None \<Rightarrow> io_return JNull
       | Some stored \<Rightarrow>
           if stored = [] then io_return JNull
           else
             io_catch
               (io_bind (parse pf stored) (\<lambda>vault.
                io_bind (io_lift (field_bytes pf vault (js ''salt''))) (\<lambda>salt.
                io_bind (io_lift (field_bytes pf vault (js ''iv''))) (\<lambda>iv.
                io_bind (io_lift (field_bytes pf vault (js ''data''))) (\<lambda>data.
                io_bind (deriveKey pf password salt) (\<lambda>key.
                io_bind (subtle_decrypt pf iv key data) (\<lambda>decrypted.
                parse pf (TextDecoder_decode pf decrypted))))))))
               (\<lambda>error. io_throw (Error ''ACCESS_DENIED: Decryption Failed.'')))"

text \<open>The variant with the server-side guards: \<open>unlock\<close> first returns \<open>null\<close> when
  \<open>window\<close> is undefined, and is otherwise the function above, statement for statement.\<close>

definition HeraVault_unlock_guarded :: "'n platform \<Rightarrow> jsstring \<Rightarrow> ('n json, 'n) io" where
  "HeraVault_unlock_guarded pf password =
     (if \<not> window_defined pf then io_return JNull else HeraVault_unlock pf password)"

subsection \<open>\<open>HeraVault\<close> with the integrity hash (format \<open>v96-forensic\<close>)\<close>

definition HeraVault96_lock :: "'n platform \<Rightarrow> 'n json \<Rightarrow> jsstring \<Rightarrow> (jsstring, 'n) io" where
  "HeraVault96_lock pf data password =
     (if password = [] then io_throw (Error ''Password Required'')
      else
        io_bind (getRandomValues saltLen) (\<lambda>salt.
        io_bind (getRandomValues ivLen) (\<lambda>iv.
        io_bind (deriveKey pf password salt) (\<lambda>key.
        io_bind (subtle_encrypt pf iv key (TextEncoder_encode (JSON_stringify pf data)))
          (\<lambda>ciphertext.
        io_bind (io_return (SHA256 pf key)) (\<lambda>authHashBuffer.
        io_bind (io_lift (bufferToBase64 salt)) (\<lambda>salt64.
        io_bind (io_lift (bufferToBase64 iv)) (\<lambda>iv64.
        io_bind (io_lift (bufferToBase64 authHashBuffer)) (\<lambda>authHash64.
        io_bind (io_lift (bufferToBase64 ciphertext)) (\<lambda>data64.
        io_return
          (JSON_stringify pf
             (JObj [(js ''salt'', JStr salt64), (js ''iv'', JStr iv64),
                    (js ''authHash'', JStr authHash64), (js ''data'', JStr data64),
                    (js ''version'', JStr (js ''v96-forensic''))]))))))))))))"

definition HeraVault96_unlock :: "'n platform \<Rightarrow> jsstring \<Rightarrow> jsstring \<Rightarrow> ('n json, 'n) io" where
  "HeraVault96_unlock pf vaultStr password =
     io_catch
       (io_bind (parse pf vaultStr) (\<lambda>vault.
        io_bind (io_lift (field_bytes pf vault (js ''salt''))) (\<lambda>salt.
        io_bind (io_lift (field_bytes pf vault (js ''iv''))) (\<lambda>iv.
        io_bind (io_lift (field_bytes pf vault (js ''data''))) (\<lambda>data.
        io_bind (deriveKey pf password salt) (\<lambda>key.
        io_bind (io_return (SHA256 pf key)) (\<lambda>authHashBuffer.
        io_bind (io_lift (bufferToBase64 authHashBuffer)) (\<lambda>computedHash.
        io_bind (io_lift (get_property vault (js ''authHash''))) (\<lambda>authHash.
        if Some (JStr computedHash) \<noteq> authHash then io_throw (Error ''INVALID_PASSWORD'')
        else
          io_bind (subtle_decrypt pf iv key data) (\<lambda>decrypted.
          parse pf (TextDecoder_decode pf decrypted)))))))))))
       (\<lambda>e. if e = Error ''INVALID_PASSWORD'' then io_throw e
            else io_throw (Error ''CORRUPT_VAULT''))"

subsection \<open>\<open>HeraSecurity\<close> (format \<open>v98-gold\<close>)\<close>

definition HeraSecurity_lock :: "'n platform \<Rightarrow> 'n json \<Rightarrow> jsstring \<Rightarrow> (jsstring, 'n) io" where
  "HeraSecurity_lock pf data password =
     (if password = [] \<or> length (trim password) = 0 then io_throw (Error ''Invalid Password'')
      else
        io_bind (getRandomValues saltLen) (\<lambda>salt.
        io_bind (getRandomValues ivLen) (\<lambda>iv.
        io_bind (deriveKey pf password salt) (\<lambda>key.
        io_bind (io_return (SHA256 pf key)) (\<lambda>authHashBuffer.
        io_bind (subtle_encrypt pf iv key (TextEncoder_encode (JSON_stringify pf data)))
          (\<lambda>ciphertext.
        io_bind (io_lift (bufferToBase64 salt)) (\<lambda>salt64.
        io_bind (io_lift (bufferToBase64 iv)) (\<lambda>iv64.
        io_bind (io_lift (bufferToBase64 authHashBuffer)) (\<lambda>authHash64.
        io_bind (io_lift (bufferToBase64 ciphertext)) (\<lambda>data64.
        io_return
          (JSON_stringify pf
             (JObj [(js ''salt'', JStr salt64), (js ''iv'', JStr iv64),
                    (js ''authHash'', JStr authHash64), (js ''data'', JStr data64),
                    (js ''version'', JStr (js ''v98-gold''))]))))))))))))"

definition HeraSecurity_unlock :: "'n platform \<Rightarrow> jsstring \<Rightarrow> jsstring \<Rightarrow> ('n json, 'n) io" where
  "HeraSecurity_unlock pf vaultStr password =
     io_bind (parse pf vaultStr) (\<lambda>vault.
     io_bind (io_lift (field_bytes pf vault (js ''salt''))) (\<lambda>salt.
     io_bind (io_lift (field_bytes pf vault (js ''iv''))) (\<lambda>iv.
     io_bind (io_lift (field_bytes pf vault (js ''data''))) (\<lambda>data.
     io_bind (deriveKey pf password salt) (\<lambda>key.
     io_bind (io_return (SHA256 pf key)) (\<lambda>authHashBuffer.
     io_bind (io_lift (bufferToBase64 authHashBuffer)) (\<lambda>computedHash.
     io_bind (io_lift (get_property vault (js ''authHash''))) (\<lambda>authHash.
     if Some (JStr computedHash) \<noteq> authHash then io_throw (Error ''INVALID_CREDENTIALS'')
     else
       io_catch
         (io_bind (subtle_decrypt pf iv key data) (\<lambda>decrypted.
          parse pf (TextDecoder_decode pf decrypted)))
         (\<lambda>e. io_throw (Error ''DECRYPTION_FAILED''))))))))))"

section \<open>States as JavaScript values\<close>

text \<open>
  The JavaScript objects that the values of the state types are at run time, as the
  vault receives them: a record is an object with its fields in declaration order, a
  value of a string union is its string, \<open>number | null\<close> is a number or \<open>null\<close>.
\<close>

fun Theme_string :: "Theme \<Rightarrow> string" where
  "Theme_string blush = ''blush''"
| "Theme_string serenity = ''serenity''"
| "Theme_string nature = ''nature''"

fun Unit_string :: "Unit \<Rightarrow> string" where
  "Unit_string unit_C = ''C''"
| "Unit_string unit_F = ''F''"

fun Language_string :: "Language \<Rightarrow> string" where
  "Language_string en = ''en''"
| "Language_string es = ''es''"
| "Language_string fr = ''fr''"

fun FlowIntensity_string :: "FlowIntensity \<Rightarrow> string" where
  "FlowIntensity_string flow_none = ''none''"
| "FlowIntensity_string spotting = ''spotting''"
| "FlowIntensity_string light = ''light''"
| "FlowIntensity_string medium = ''medium''"
| "FlowIntensity_string heavy = ''heavy''"

fun MucusType_string :: "MucusType \<Rightarrow> string" where
  "MucusType_string mucus_none = ''none''"
| "MucusType_string dry = ''dry''"
| "MucusType_string sticky = ''sticky''"
| "MucusType_string creamy = ''creamy''"
| "MucusType_string eggwhite = ''eggwhite''"
| "MucusType_string watery = ''watery''"

fun CervixPosition_string :: "CervixPosition \<Rightarrow> string" where
  "CervixPosition_string low_hard = ''low_hard''"
| "CervixPosition_string med_firm = ''med_firm''"
| "CervixPosition_string high_soft = ''high_soft''"

fun LHResult_string :: "LHResult \<Rightarrow> string" where
  "LHResult_string negative = ''negative''"
| "LHResult_string faint = ''faint''"
| "LHResult_string lh_equal = ''equal''"
| "LHResult_string peak = ''peak''"

definition CycleDay_json :: "'n CycleDay \<Rightarrow> 'n json" where
  "CycleDay_json d =
     JObj [(js ''date'', JStr (date d)),
           (js ''temperature'', (case temperature d of None \<Rightarrow> JNull | Some t \<Rightarrow> JNum t)),
           (js ''mucus'', JStr (js (MucusType_string (mucus d)))),
           (js ''flow'', JStr (js (FlowIntensity_string (flow d)))),
           (js ''cervix'', JStr (js (CervixPosition_string (cervix d)))),
           (js ''lhTest'', JStr (js (LHResult_string (lhTest d)))),
           (js ''stressLevel'', JNum (stressLevel d)),
           (js ''notes'', JStr (day_notes d))]"

definition UserProfile_json :: "UserProfile \<Rightarrow> 'n json" where
  "UserProfile_json p =
     JObj [(js ''name'', JStr (name p)),
           (js ''theme'', JStr (js (Theme_string (theme p)))),
           (js ''unit'', JStr (js (Unit_string (unit p)))),
           (js ''lang'', JStr (js (Language_string (lang p))))]"

definition AppState_json :: "'n AppState \<Rightarrow> 'n json" where
  "AppState_json s =
     JObj [(js ''profile'', UserProfile_json (profile s)),
           (js ''cycleData'', JArr (map CycleDay_json (cycleData s))),
           (js ''lastSynced'', JNum (lastSynced s)),
           (js ''unsavedChanges'', JBool (unsavedChanges s))]"

section \<open>A small platform for concrete runs\<close>

text \<open>
  An executable instance of the platform record, with integers as numbers, on which the
  vault can be run on concrete inputs.  Its JSON functions print and read compact JSON
  texts (no white space, no escapes other than \<open>\"\<close> and \<open>\\\<close>, integers only).  Its
  key derivation, digest and cipher only stand in for PBKDF2, SHA-256 and AES-GCM: the
  key is the password followed by the salt, the digest is the reversed input, and a
  ciphertext is the plaintext followed by a tag made of the key and the IV, which
  decryption checks and removes.
\<close>

fun ref_digits :: "nat \<Rightarrow> jsstring" where
  "ref_digits n = (if n < 10 then [of_nat (48 + n)]
                   else ref_digits (n div 10) @ [of_nat (48 + n mod 10)])"

definition ref_Number_toString :: "int \<Rightarrow> jsstring" where
  "ref_Number_toString i = (if i < 0 then 45 # ref_digits (nat (- i)) else ref_digits (nat i))"

fun ref_quote :: "jsstring \<Rightarrow> jsstring" where
  "ref_quote [] = [34]"
| "ref_quote (c # cs) = (if c = 34 \<or> c = 92 then 92 # c # ref_quote cs else c # ref_quote cs)"

fun ref_stringify :: "int json \<Rightarrow> jsstring"
  and ref_stringify_elements :: "int json list \<Rightarrow> jsstring"
  and ref_stringify_members :: "(jsstring \<times> int json) list \<Rightarrow> jsstring" where
  "ref_stringify JNull = js ''null''"
| "ref_stringify (JBool b) = (if b then js ''true'' else js ''false'')"
| "ref_stringify (JNum n) = ref_Number_toString n"
| "ref_stringify (JStr s) = 34 # ref_quote s"
| "ref_stringify (JArr xs) = 91 # ref_stringify_elements xs"
| "ref_stringify (JObj kvs) = 123 # ref_stringify_members kvs"
| "ref_stringify_elements [] = [93]"
| "ref_stringify_elements (x # xs) =
     ref_stringify x @ (if xs = [] then [93] else 44 # ref_stringify_elements xs)"
| "ref_stringify_members [] = [125]"
| "ref_stringify_members (kv # kvs) =
     34 # ref_quote (fst kv) @ 58 # ref_stringify (snd kv) @
     (if kvs = [] then [125] else 44 # ref_stringify_members kvs)"

fun ref_parse_string :: "jsstring \<Rightarrow> (jsstring \<times> jsstring) option" where
  "ref_parse_string [] = None"
| "ref_parse_string (c # cs) =
     (if c = 34 then Some ([], cs)
      else if c = 92 then
        (case cs of
           [] \<Rightarrow> None
         | d # ds \<Rightarrow> (case ref_parse_string ds of
                       None \<Rightarrow> None
                     | Some (s, rest) \<Rightarrow> Some (d # s, rest)))
      else (case ref_parse_string cs of
              None \<Rightarrow> None
            | Some (s, rest) \<Rightarrow> Some (c # s, rest)))"

fun ref_parse_digits :: "nat \<Rightarrow> jsstring \<Rightarrow> nat \<times> jsstring" where
  "ref_parse_digits acc [] = (acc, [])"
| "ref_parse_digits acc (c # cs) =
     (if 48 \<le> unat c \<and> unat c \<le> 57 then ref_parse_digits (acc * 10 + (unat c - 48)) cs
      else (acc, c # cs))"

definition is_digit :: "jschar \<Rightarrow> bool" where
  "is_digit c \<longleftrightarrow> 48 \<le> unat c \<and> unat c \<le> 57"

fun ref_parse_value :: "nat \<Rightarrow> jsstring \<Rightarrow> (int json \<times> jsstring) option"
  and ref_parse_elements :: "nat \<Rightarrow> jsstring \<Rightarrow> (int json list \<times> jsstring) option"
  and ref_parse_members :: "nat \<Rightarrow> jsstring \<Rightarrow> ((jsstring \<times> int json) list \<times> jsstring) option"
  where
  "ref_parse_value 0 s = None"
| "ref_parse_value (Suc fuel) s =
     (case s of
        [] \<Rightarrow> None
      | c # cs \<Rightarrow>
          if c = 34 then
            (case ref_parse_string cs of None \<Rightarrow> None | Some (t, rest) \<Rightarrow> Some (JStr t, rest))
          else if c = 91 then
            (case cs of
               [] \<Rightarrow> None
             | d # ds \<Rightarrow>
                 if d = 93 then Some (JArr [], ds)
                 else (case ref_parse_elements fuel cs of
                         None \<Rightarrow> None
                       | Some (xs, rest) \<Rightarrow> Some (JArr xs, rest)))
          else if c = 123 then
            (case cs of
               [] \<Rightarrow> None
             | d # ds \<Rightarrow>
                 if d = 125 then Some (JObj [], ds)
                 else (case ref_parse_members fuel cs of
                         None \<Rightarrow> None
                       | Some (kvs, rest) \<Rightarrow> Some (JObj kvs, rest)))
          else if c = 45 then
            (case cs of
               [] \<Rightarrow> None
             | d # ds \<Rightarrow>
                 if is_digit d
                 then (case ref_parse_digits 0 cs of (n, rest) \<Rightarrow> Some (JNum (- int n), rest))
                 else None)
          else if is_digit c then
            (case ref_parse_digits 0 s of (n, rest) \<Rightarrow> Some (JNum (int n), rest))
          else if take 4 s = js ''null'' then Some (JNull, drop 4 s)
          else if take 4 s = js ''true'' then Some (JBool True, drop 4 s)
          else if take 5 s = js ''false'' then Some (JBool False, drop 5 s)
          else None)"
| "ref_parse_elements 0 s = None"
| "ref_parse_elements (Suc fuel) s =
     (case ref_parse_value fuel s of
        None \<Rightarrow> None
      | Some (x, rest) \<Rightarrow>
          (case rest of
             [] \<Rightarrow> None
           | c # cs \<Rightarrow>
               if c = 93 then Some ([x], cs)
               else if c = 44 then
                 (case ref_parse_elements fuel cs of
                    None \<Rightarrow> None
                  | Some (xs, rest') \<Rightarrow> Some (x # xs, rest'))
               else None))"
| "ref_parse_members 0 s = None"
| "ref_parse_members (Suc fuel) s =
     (case s of
        [] \<Rightarrow> None
      | q # s1 \<Rightarrow>
          if q \<noteq> 34 then None
          else
            (case ref_parse_string s1 of
               None \<Rightarrow> None
             | Some (k, s2) \<Rightarrow>
                 (case s2 of
                    [] \<Rightarrow> None
                  | colon # s3 \<Rightarrow>
                      if colon \<noteq> 58 then None
                      else
                        (case ref_parse_value fuel s3 of
                           None \<Rightarrow> None
                         | Some (v, rest) \<Rightarrow>
                             (case rest of
                                [] \<Rightarrow> None
                              | c # cs \<Rightarrow>
                                  if c = 125 then Some ([(k, v)], cs)
                                  else if c = 44 then
                                    (case ref_parse_members fuel cs of
                                       None \<Rightarrow> None
                                     | Some (kvs, rest') \<Rightarrow> Some ((k, v) # kvs, rest'))
                                  else None)))))"

definition ref_JSON_parse :: "jsstring \<Rightarrow> int json option" where
  "ref_JSON_parse s =
     (case ref_parse_value (Suc (length s)) s of
        Some (v, []) \<Rightarrow> Some v
      | _ \<Rightarrow> None)"

definition ref_PBKDF2 :: "bytes \<Rightarrow> bytes \<Rightarrow> nat \<Rightarrow> bytes" where
  "ref_PBKDF2 password salt n = password @ salt"

definition ref_encrypt :: "bytes \<Rightarrow> bytes \<Rightarrow> bytes \<Rightarrow> bytes" where
  "ref_encrypt key iv plaintext = plaintext @ key @ iv"

definition ref_decrypt :: "bytes \<Rightarrow> bytes \<Rightarrow> bytes \<Rightarrow> bytes option" where
  "ref_decrypt key iv ciphertext =
     (let n = length ciphertext - length (key @ iv) in
      if length (key @ iv) \<le> length ciphertext \<and> drop n ciphertext = key @ iv
      then Some (take n ciphertext) else None)"

text \<open>The decoder of the small platform reads each byte as one code unit, which is
  UTF-8 decoding on ASCII texts.\<close>

definition ref_platform :: "int platform" where
  "ref_platform =
     \<lparr>TextDecoder_decode = map (\<lambda>b. of_nat (unat b)),
      JSON_stringify = ref_stringify,
      JSON_parse = ref_JSON_parse,
      Number_toString = ref_Number_toString,
      PBKDF2 = ref_PBKDF2,
      SHA256 = rev,
      AES_GCM_encrypt = ref_encrypt,
      AES_GCM_decrypt = ref_decrypt,
      storage_accepts = (\<lambda>k v. True),
      window_defined = True\<rparr>"

definition ref_world :: "int world" where
  "ref_world =
     \<lparr>localStorage = Map.empty, calls = [], entropy = (\<lambda>i. of_nat (7 * i + 3)), drawn = 0,
      clock = 1700000000000\<rparr>"

text \<open>The inputs of the concrete runs: the default state (loaded at time 0), a
  password, a wrong password, the password of one space, and two passwords that differ only in how an unpaired
  surrogate is written.\<close>

definition example_state :: "int json" where
  "example_state = AppState_json (DEFAULT_STATE 0)"

definition example_password :: jsstring where
  "example_password = js ''sesame1234''"

definition example_wrong_password :: jsstring where
  "example_wrong_password = js ''wrong''"

definition blank_password :: jsstring where
  "blank_password = js '' ''"

definition surrogate_password :: jsstring where
  "surrogate_password = [55296]"

definition replacement_password :: jsstring where
  "replacement_password = [65533]"

section \<open>What \<open>lock\<close> writes\<close>

text \<open>
  The artifact that a call of \<open>lock\<close> builds in a world \<open>w\<close>, as a function of its
  inputs: the salt and the IV are the next 16 and 12 bytes of the generator, the key is
  derived from the password and the salt, the ciphertext is the encrypted JSON text of
  the state, and the binary fields are base64 texts.
\<close>

definition base64_text :: "bytes \<Rightarrow> jsstring" where
  "base64_text b = map of_nat (b64_encode (map unat b))"

definition sealed_salt :: "'n world \<Rightarrow> bytes" where
  "sealed_salt w = map (entropy w) [drawn w ..< drawn w + saltLen]"

definition sealed_iv :: "'n world \<Rightarrow> bytes" where
  "sealed_iv w = map (entropy w) [drawn w + saltLen ..< drawn w + saltLen + ivLen]"

definition sealed_key :: "'n platform \<Rightarrow> jsstring \<Rightarrow> 'n world \<Rightarrow> bytes" where
  "sealed_key pf password w = PBKDF2 pf (TextEncoder_encode password) (sealed_salt w) iterations"

definition sealed_data :: "'n platform \<Rightarrow> 'n json \<Rightarrow> jsstring \<Rightarrow> 'n world \<Rightarrow> bytes" where
  "sealed_data pf data password w =
     AES_GCM_encrypt pf (sealed_key pf password w) (sealed_iv w)
       (TextEncoder_encode (JSON_stringify pf data))"

definition artifact_v1 :: "'n platform \<Rightarrow> 'n json \<Rightarrow> jsstring \<Rightarrow> 'n world \<Rightarrow> 'n json" where
  "artifact_v1 pf data password w =
     JObj [(js ''salt'', JStr (base64_text (sealed_salt w))),
           (js ''iv'', JStr (base64_text (sealed_iv w))),
           (js ''data'', JStr (base64_text (sealed_data pf data password w))),
           (js ''version'', JStr (js ''v1.0-forensic'')),
           (js ''timestamp'', JNum (clock w))]"

definition artifact_hashed ::
  "'n platform \<Rightarrow> string \<Rightarrow> 'n json \<Rightarrow> jsstring \<Rightarrow> 'n world \<Rightarrow> 'n json" where
  "artifact_hashed pf version data password w =
     JObj [(js ''salt'', JStr (base64_text (sealed_salt w))),
           (js ''iv'', JStr (base64_text (sealed_iv w))),
           (js ''authHash'', JStr (base64_text (SHA256 pf (sealed_key pf password w)))),
           (js ''data'', JStr (base64_text (sealed_data pf data password w))),
           (js ''version'', JStr (js version))]"

definition sealed_world :: "'n platform \<Rightarrow> 'n json \<Rightarrow> jsstring \<Rightarrow> 'n world \<Rightarrow> 'n world" where
  "sealed_world pf data password w =
     w\<lparr>drawn := drawn w + saltLen + ivLen,
       calls := calls w @
         [DeriveKey (TextEncoder_encode password) (sealed_salt w),
          Encrypt (sealed_key pf password w) (sealed_iv w)
            (TextEncoder_encode (JSON_stringify pf data))]\<rparr>"

text \<open>An artifact with one property replaced (or added when it is absent), and with
  one property removed.\<close>

definition with_property :: "'n json \<Rightarrow> jsstring \<Rightarrow> 'n json \<Rightarrow> 'n json" where
  "with_property vault k v =
     (case vault of JObj kvs \<Rightarrow> JObj (AList.update k v kvs) | _ \<Rightarrow> vault)"

definition without_property :: "'n json \<Rightarrow> jsstring \<Rightarrow> 'n json" where
  "without_property vault k =
     (case vault of JObj kvs \<Rightarrow> JObj (AList.delete k kvs) | _ \<Rightarrow> vault)"

text \<open>The contracts of the platform that the theorems assume: AES-GCM decrypts what it
  encrypted under the same key and IV; \<open>JSON.parse\<close> reads back a given value from the
  text \<open>JSON.stringify\<close> wrote for it; the UTF-8 decoder reads back an encoded text.\<close>

definition decrypts_own :: "'n platform \<Rightarrow> bool" where
  "decrypts_own pf \<longleftrightarrow>
     (\<forall>key iv plaintext.
        AES_GCM_decrypt pf key iv (AES_GCM_encrypt pf key iv plaintext) = Some plaintext)"

definition json_roundtrip :: "'n platform \<Rightarrow> 'n json \<Rightarrow> bool" where
  "json_roundtrip pf v \<longleftrightarrow> JSON_parse pf (JSON_stringify pf v) = Some v"

definition text_roundtrip :: "'n platform \<Rightarrow> jsstring \<Rightarrow> bool" where
  "text_roundtrip pf s \<longleftrightarrow> TextDecoder_decode pf (TextEncoder_encode s) = s"

definition state_roundtrip :: "'n platform \<Rightarrow> 'n json \<Rightarrow> bool" where
  "state_roundtrip pf data \<longleftrightarrow>
     json_roundtrip pf data \<and> text_roundtrip pf (JSON_stringify pf data)"

text \<open>The base64 text of the example's ciphertext ends in \<open>wA==\<close>; the tampered text
  has \<open>B\<close> in place of \<open>A\<close>, which changes only bits that the decoder discards.\<close>

definition tampered_data :: jsstring where
  "tampered_data =
     (base64_text (sealed_data ref_platform example_state example_password ref_world))
       [209 := 66]"

definition example_day :: "string \<Rightarrow> int option \<Rightarrow> int CycleDay" where
  "example_day d t =
     \<lparr>date = js d, temperature = t, mucus = dry, flow = flow_none, cervix = low_hard,
      lhTest = negative, stressLevel = 1, day_notes = []\<rparr>"

definition example_journal :: "int AppState" where
  "example_journal = (DEFAULT_STATE 0)\<lparr>cycleData := [example_day ''2024-01-05'' None]\<rparr>"

definition replaced_data :: jsstring where
  "replaced_data = js ''AAAA''"

definition not_json :: jsstring where
  "not_json = js ''not json''"

text \<open>An object with no \<open>salt\<close> property, and the world in which a given text is
  stored under \<open>HERA_VAULT_CORE\<close>.\<close>

definition without_salt :: "int json" where
  "without_salt = JObj [(js ''iv'', JStr (js ''AAAA'')), (js ''data'', JStr (js ''AAAA''))]"

definition stored_world :: "jsstring \<Rightarrow> int world" where
  "stored_world s = ref_world\<lparr>localStorage := [HERA_VAULT_CORE \<mapsto> s]\<rparr>"

section \<open>Lemmas on the codec\<close>

lemma unat16: "n < 65536 \<Longrightarrow> unat (of_nat n :: 16 word) = n"
  by (simp add: unat_of_nat)

lemma unat_byte: "unat (b :: 8 word) < 256"
  using unsigned_less [of b] by simp

lemma unat_fromCharCode: "unat (String_fromCharCode b) = unat b"
  unfolding String_fromCharCode_def using unat_byte [of b]
  by (simp only: unat_of_nat) simp

lemma b64_index_char:
  assumes "n < 64" shows "b64_index (b64_char n) = Some n"
proof -
  consider "n < 26" | "26 \<le> n \<and> n < 52" | "52 \<le> n \<and> n < 62" | "n = 62" | "n = 63"
    using assms by linarith
  then show ?thesis
    by cases (auto simp: b64_char_def b64_index_def)
qed

lemma b64_char_bound:
  assumes "n < 64" shows "b64_char n < 123"
proof -
  consider "n < 26" | "26 \<le> n \<and> n < 52" | "52 \<le> n \<and> n < 62" | "n = 62" | "n = 63"
    using assms by linarith
  then show ?thesis
    by cases (auto simp: b64_char_def)
qed

lemma regroup4: "((n div 262144 * 64 + n div 4096 mod 64) * 64 + n div 64 mod 64) * 64 + n mod 64 = (n::nat)"
proof -
  have a: "n div 262144 = n div 4096 div 64" by (simp add: div_mult2_eq[symmetric])
  have b: "n div 4096 = n div 64 div 64" by (simp add: div_mult2_eq[symmetric])
  show ?thesis unfolding a b by simp
qed

lemma regroup3: "(n div 4096 * 64 + n div 64 mod 64) * 64 + n mod 64 = (n::nat)"
proof -
  have b: "n div 4096 = n div 64 div 64" by (simp add: div_mult2_eq[symmetric])
  show ?thesis unfolding b by simp
qed

lemma regroup2: "n div 64 * 64 + n mod 64 = (n::nat)" by simp

lemma m1: "z < (256::nat) \<Longrightarrow> (k * 256 + z) mod 256 = z" by simp
lemma d1: "z < (256::nat) \<Longrightarrow> (k * 256 + z) div 256 = k" by simp

lemma bytes3: assumes "x < 256" "y < 256" "z < (256::nat)"
  shows "((x * 256 + y) * 256 + z) div 65536 = x \<and> ((x * 256 + y) * 256 + z) div 256 mod 256 = y \<and> ((x * 256 + y) * 256 + z) mod 256 = z"
proof -
  have a: "((x * 256 + y) * 256 + z) div 256 = x * 256 + y" using assms(3) by (rule d1)
  have b: "((x * 256 + y) * 256 + z) div 65536 = ((x * 256 + y) * 256 + z) div 256 div 256"
    by (simp only: div_mult2_eq[symmetric]) simp
  show ?thesis unfolding b a using assms by (simp only: m1 d1)
qed

lemma bytes2: assumes "x < 256" "y < (256::nat)"
  shows "(x * 256 + y) * 4 div 4 div 256 = x \<and> (x * 256 + y) * 4 div 4 mod 256 = y"
proof -
  have a: "(x * 256 + y) * 4 div 4 = x * 256 + y" by simp
  show ?thesis unfolding a using assms by (simp only: m1 d1)
qed

lemma dec4: "b64_decode (n div 262144 # n div 4096 mod 64 # n div 64 mod 64 # n mod 64 # rest) =
   n div 65536 # n div 256 mod 256 # n mod 256 # b64_decode rest"
  by (simp only: b64_decode.simps Let_def regroup4)

lemma dec3: "b64_decode [n div 4096, n div 64 mod 64, n mod 64] = [n div 4 div 256, n div 4 mod 256]"
  by (simp only: b64_decode.simps Let_def regroup3)

lemma dec2: "b64_decode [n div 64, n mod 64] = [n div 16]"
  by (simp only: b64_decode.simps regroup2)

lemma b64_decode_sextets: "\<forall>x \<in> set xs. x < 256 \<Longrightarrow> b64_decode (b64_sextets xs) = xs"
proof (induction xs rule: b64_sextets.induct)
  case (1 x y z rest)
  then have "x < 256" "y < 256" "z < 256" and r: "b64_decode (b64_sextets rest) = rest" by simp_all
  from bytes3 [OF this(1-3)] r show ?case
    by (simp only: b64_sextets.simps Let_def dec4)
next
  case (2 x y)
  then have "x < 256" "y < 256" by simp_all
  from bytes2 [OF this] show ?case
    by (simp only: b64_sextets.simps Let_def dec3)
next
  case (3 x)
  show ?case by (simp only: b64_sextets.simps Let_def dec2) simp
next
  case 4
  show ?case by simp
qed

lemma b64_encode_decomp: "b64_encode xs = map b64_char (b64_sextets xs) @ b64_pad xs"
  by (induction xs rule: b64_sextets.induct) (simp_all add: Let_def)


lemma b64_sextets_bound: "\<forall>s \<in> set (b64_sextets xs). s < 64" if "\<forall>x \<in> set xs. x < 256"
  using that
proof (induction xs rule: b64_sextets.induct)
  case (1 x y z rest)
  then have "x < 256" "y < 256" "z < 256" by simp_all
  then have "(x * 256 + y) * 256 + z < 16777216" by simp
  then have "((x * 256 + y) * 256 + z) div 262144 < 64" by simp
  with 1 show ?case by (simp add: Let_def)
next
  case (2 x y)
  then have "(x * 256 + y) * 4 < 262144" by simp
  then have "(x * 256 + y) * 4 div 4096 < 64" by simp
  then show ?case by (simp add: Let_def)
next
  case (3 x)
  then have "x * 16 < 4096" by simp
  then have "x * 16 div 64 < 64" by simp
  then show ?case by (simp add: Let_def)
next
  case 4
  show ?case by simp
qed

lemma b64_pad_cases: "b64_pad xs = [] \<or> b64_pad xs = [61] \<or> b64_pad xs = [61, 61]"
  by (induction xs rule: b64_pad.induct) simp_all

lemma b64_length: "(length (b64_sextets xs) + length (b64_pad xs)) mod 4 = 0"
  by (induction xs rule: b64_sextets.induct) (simp_all add: Let_def)

lemma b64_sextets_length: "length (b64_sextets xs) mod 4 \<noteq> 1"
  by (induction xs rule: b64_sextets.induct) (simp_all add: Let_def)


lemma b64_char_neq_pad: "n < 64 \<Longrightarrow> b64_char n \<noteq> 61"
  using b64_index_char [of n] by (auto simp: b64_index_def)

lemma b64_char_not_ws: "n < 64 \<Longrightarrow> \<not> ascii_whitespace (b64_char n)"
  using b64_index_char [of n] by (auto simp: b64_index_def ascii_whitespace_def)

lemma strip_padding_encoded:
  assumes ss: "\<forall>s \<in> set ss. s < 64"
    and len: "(length ss + length p) mod 4 = 0"
    and p: "p = [] \<or> p = [61] \<or> p = [61, 61]"
  shows "strip_padding (map b64_char ss @ p) = map b64_char ss"
proof -
  have lst: "last (map b64_char ss) \<noteq> 61" if "ss \<noteq> []"
    using that ss by (simp add: last_map b64_char_neq_pad)
  from p consider "p = []" | "p = [61]" | "p = [61, 61]" by blast
  then show ?thesis
  proof cases
    case 1
    show ?thesis
    proof (cases "ss = []")
      case True
      with 1 show ?thesis by (simp add: strip_padding_def)
    next
      case False
      with 1 lst show ?thesis by (simp add: strip_padding_def)
    qed
  next
    case 2
    with len have "ss \<noteq> []" by auto
    with 2 lst len show ?thesis by (simp add: strip_padding_def butlast_append)
  next
    case 3
    with len show ?thesis by (simp add: strip_padding_def butlast_append)
  qed
qed

lemma b64_encode_codes: "\<forall>x \<in> set xs. x < 256 \<Longrightarrow> \<forall>c \<in> set (b64_encode xs). c < 123 \<and> \<not> ascii_whitespace c"
proof -
  assume a: "\<forall>x \<in> set xs. x < 256"
  have "\<forall>c \<in> set (map b64_char (b64_sextets xs)). c < 123 \<and> \<not> ascii_whitespace c"
    using b64_sextets_bound [OF a] by (auto simp: b64_char_bound b64_char_not_ws)
  moreover have "\<forall>c \<in> set (b64_pad xs). c < 123 \<and> \<not> ascii_whitespace c"
    using b64_pad_cases [of xs] by (auto simp: ascii_whitespace_def)
  ultimately show ?thesis by (auto simp: b64_encode_decomp)
qed

lemma map_unat_of_nat: "\<forall>c \<in> set cs. c < 65536 \<Longrightarrow> map unat (map of_nat cs :: jsstring) = cs"
  by (induction cs) (simp_all add: unat16)

lemma map_of_nat_unat: "map of_nat (map unat s) = (s :: jsstring)"
  by (induction s) simp_all

lemma index_of_chars:
  "\<forall>s \<in> set ss. s < 64 \<Longrightarrow> map (\<lambda>c. the (b64_index c)) (map b64_char ss) = ss"
  by (induction ss) (simp_all add: b64_index_char)

lemma unat_byte_le: "unat (b :: 8 word) \<le> 255"
  using unat_byte [of b] by simp

lemma atob_btoa: assumes "btoa s = Inr e" shows "atob e = Inr s"
proof -
  let ?xs = "map unat s"
  let ?ss = "b64_sextets ?xs"
  from assms have small: "\<forall>x \<in> set ?xs. x < 256" and e: "e = map of_nat (b64_encode ?xs)"
    by (auto simp: btoa_def split: if_splits)
  from b64_encode_codes [OF small] have codes: "\<forall>c \<in> set (b64_encode ?xs). c < 123 \<and> \<not> ascii_whitespace c" .
  then have "\<forall>c \<in> set (b64_encode ?xs). c < 65536" by auto
  then have u: "map unat e = b64_encode ?xs" unfolding e by (rule map_unat_of_nat)
  have f: "filter (\<lambda>c. \<not> ascii_whitespace c) (b64_encode ?xs) = b64_encode ?xs"
    using codes by (simp add: filter_id_conv)
  have bound: "\<forall>s \<in> set ?ss. s < 64" using small by (rule b64_sextets_bound)
  have d: "strip_padding (b64_encode ?xs) = map b64_char ?ss"
    unfolding b64_encode_decomp
    using bound b64_length b64_pad_cases by (rule strip_padding_encoded)
  have idx: "map (\<lambda>c. the (b64_index c)) (map b64_char ?ss) = ?ss"
    using bound by (rule index_of_chars)
  have ok: "\<not> (\<exists>c \<in> set (map b64_char ?ss). b64_index c = None)"
    using bound by (auto simp: b64_index_char)
  have l: "length (map b64_char ?ss) mod 4 \<noteq> 1" using b64_sextets_length [of ?xs] by simp
  have "atob e = Inr (map of_nat (b64_decode ?ss))"
    unfolding atob_def u f d Let_def using ok l idx by simp
  also have "b64_decode ?ss = ?xs" using small by (rule b64_decode_sextets)
  finally show ?thesis by (simp only: map_of_nat_unat)
qed

lemma binary_loop: "foldl (\<lambda>binary b. binary @ [String_fromCharCode b]) acc buffer = acc @ map String_fromCharCode buffer"
  by (induction buffer arbitrary: acc) simp_all

lemma bufferToBase64_ok: "\<exists>e. bufferToBase64 b = Inr e"
  by (simp add: bufferToBase64_def btoa_def binary_loop unat_fromCharCode unat_byte_le not_less)

lemma store_from: "store_Uint8 (String_fromCharCode b) = b"
  using unat_byte [of b]
  by (simp add: store_Uint8_def unat_fromCharCode)

lemma base64_roundtrip: "bufferToBase64 b = Inr e \<Longrightarrow> base64ToBuffer e = Inr b"
proof -
  assume "bufferToBase64 b = Inr e"
  then have "btoa (map String_fromCharCode b) = Inr e" by (simp add: bufferToBase64_def binary_loop)
  then have "atob e = Inr (map String_fromCharCode b)" by (rule atob_btoa)
  then show ?thesis by (simp add: base64ToBuffer_def store_from comp_def)
qed


lemma bufferToBase64_eq: "bufferToBase64 b = Inr (base64_text b)"
  by (simp add: bufferToBase64_def btoa_def binary_loop unat_fromCharCode unat_byte_le not_less
      base64_text_def comp_def)

lemma base64ToBuffer_text: "base64ToBuffer (base64_text b) = Inr b"
  using base64_roundtrip [OF bufferToBase64_eq] .

lemma of_char_less: "(of_char c :: nat) < 256"
proof -
  have "(of_char c :: nat) mod 256 < 256" by simp
  then show ?thesis by (simp only: of_char_mod_256)
qed

lemma js_char_inj: "(of_nat (of_char x) :: 16 word) = of_nat (of_char y) \<longleftrightarrow> x = y"
proof
  assume "(of_nat (of_char x) :: 16 word) = of_nat (of_char y)"
  then have "unat (of_nat (of_char x) :: 16 word) = unat (of_nat (of_char y) :: 16 word)"
    by (rule arg_cong)
  moreover have "(of_char x :: nat) < 65536" "(of_char y :: nat) < 65536"
    using of_char_less [of x] of_char_less [of y] by linarith+
  ultimately have "(of_char x :: nat) = of_char y" by (simp only: unat16)
  then show "x = y" by simp
qed simp

lemma js_inj: "js a = js b \<longleftrightarrow> a = b"
proof -
  have "inj (\<lambda>c. of_nat (of_char c) :: 16 word)"
    by (rule injI) (simp only: js_char_inj)
  then show ?thesis unfolding js_def by (simp add: inj_map_eq_map)
qed

lemmas io_defs = io_bind_def io_return_def io_throw_def io_catch_def io_lift_def
  getRandomValues_def Date_now_def localStorage_getItem_def localStorage_setItem_def
  parse_def subtle_encrypt_def subtle_decrypt_def deriveKey_def

section \<open>The reducer\<close>

lemma findIndex_from_none: "\<forall>x \<in> set xs. \<not> P x \<Longrightarrow> findIndex_from i P xs = -1"
  by (induction xs arbitrary: i) simp_all

lemma findIndex_from_some:
  "\<exists>x \<in> set xs. P x \<Longrightarrow> i \<ge> 0 \<Longrightarrow>
   (\<exists>k < length xs. findIndex_from i P xs = i + int k \<and> P (xs ! k) \<and> (\<forall>j < k. \<not> P (xs ! j)))"
proof (induction xs arbitrary: i)
  case Nil
  then show ?case by simp
next
  case (Cons x xs)
  show ?case
  proof (cases "P x")
    case True
    then show ?thesis by (intro exI [of _ 0]) simp
  next
    case False
    with Cons.prems have "\<exists>x \<in> set xs. P x" by simp
    from Cons.IH [OF this, of "i + 1"] Cons.prems(2)
    obtain k where k: "k < length xs" "findIndex_from (i + 1) P xs = i + 1 + int k" "P (xs ! k)"
      "\<forall>j < k. \<not> P (xs ! j)" by auto
    show ?thesis
    proof (intro exI [of _ "Suc k"] conjI)
      show "Suc k < length (x # xs)" using k by simp
      show "findIndex_from i P (x # xs) = i + int (Suc k)" using k False by simp
      show "P ((x # xs) ! Suc k)" using k by simp
      show "\<forall>j < Suc k. \<not> P ((x # xs) ! j)" using k False by (auto simp: less_Suc_eq_0_disj)
    qed
  qed
qed

text \<open>
  Claim C7.  For every state and every \<open>UPDATE_CYCLE_DAY\<close> action: if the date of the
  payload occurs in \<open>cycleData\<close>, the reducer replaces the first entry with that date
  in place and the length is unchanged; if the date is new, the payload is appended and
  the length grows by one.
\<close>
theorem upsert:
  fixes state :: "'n AppState" and payload :: "'n CycleDay"
  shows "(let old = cycleData state;
              new = cycleData (appReducer loaded now state (UPDATE_CYCLE_DAY payload))
          in (date payload \<in> date ` set old \<longrightarrow>
                length new = length old \<and>
                (\<exists>k < length old.
                   date (old ! k) = date payload \<and>
                   (\<forall>j < k. date (old ! j) \<noteq> date payload) \<and>
                   new = old[k := payload]))
           \<and> (date payload \<notin> date ` set old \<longrightarrow>
                new = old @ [payload] \<and> length new = length old + 1))"
proof -
  let ?old = "cycleData state"
  let ?new = "cycleData (appReducer loaded now state (UPDATE_CYCLE_DAY payload))"
  have absent: "?new = ?old @ [payload] \<and> length ?new = length ?old + 1"
    if "date payload \<notin> date ` set ?old"
  proof -
    from that have "\<forall>d \<in> set ?old. \<not> date d = date payload" by (auto simp: image_iff)
    then have "findIndex (\<lambda>d. date d = date payload) ?old = -1"
      unfolding findIndex_def by (rule findIndex_from_none)
    then show ?thesis by simp
  qed
  have present: "length ?new = length ?old \<and>
      (\<exists>k < length ?old. date (?old ! k) = date payload \<and>
          (\<forall>j < k. date (?old ! j) \<noteq> date payload) \<and> ?new = ?old[k := payload])"
    if "date payload \<in> date ` set ?old"
  proof -
    from that have "\<exists>d \<in> set ?old. date d = date payload" by (auto simp: image_iff)
    from findIndex_from_some [OF this, of 0]
    obtain k where k: "k < length ?old"
      "findIndex (\<lambda>d. date d = date payload) ?old = int k"
      "date (?old ! k) = date payload"
      "\<forall>j < k. date (?old ! j) \<noteq> date payload"
      unfolding findIndex_def by auto
    then have upd: "?new = ?old[k := payload]" by simp
    then have "length ?new = length ?old" by simp
    with k upd show ?thesis by blast
  qed
  from absent present show ?thesis unfolding Let_def by blast
qed


text \<open>An entry replaced and an entry appended.\<close>

theorem upsert_witness:
  "cycleData (appReducer 0 1 example_journal
      (UPDATE_CYCLE_DAY (example_day ''2024-01-05'' (Some 37)))) =
     [example_day ''2024-01-05'' (Some 37)] \<and>
   cycleData (appReducer 0 1 example_journal
      (UPDATE_CYCLE_DAY (example_day ''2024-01-06'' None))) =
     [example_day ''2024-01-05'' None, example_day ''2024-01-06'' None]"
  using upsert [where payload = "example_day ''2024-01-05'' (Some 37)" and state = example_journal
      and loaded = 0 and now = 1]
    upsert [where payload = "example_day ''2024-01-06'' None" and state = example_journal
      and loaded = 0 and now = 1]
  by (simp add: example_journal_def example_day_def findIndex_def js_inj DEFAULT_STATE_def)

section \<open>What \<open>lock\<close> and \<open>unlock\<close> compute\<close>

lemma trim_nonempty: "trim password \<noteq> [] \<Longrightarrow> password \<noteq> []"
  by (auto simp: trim_def)

lemmas sealed_defs = sealed_world_def sealed_salt_def sealed_iv_def sealed_key_def sealed_data_def

lemma HeraSecurity_lock_result:
  assumes "trim password \<noteq> []"
  shows "HeraSecurity_lock pf data password w =
     (Inr (JSON_stringify pf (artifact_hashed pf ''v98-gold'' data password w)),
      sealed_world pf data password w)"
proof -
  from assms have "password \<noteq> []" by (rule trim_nonempty)
  with assms show ?thesis
    by (simp add: HeraSecurity_lock_def io_defs bufferToBase64_eq artifact_hashed_def
        sealed_defs add.assoc)
qed

lemma HeraVault96_lock_result:
  assumes "password \<noteq> []"
  shows "HeraVault96_lock pf data password w =
     (Inr (JSON_stringify pf (artifact_hashed pf ''v96-forensic'' data password w)),
      sealed_world pf data password w)"
  using assms
  by (simp add: HeraVault96_lock_def io_defs bufferToBase64_eq artifact_hashed_def
      sealed_defs add.assoc)

lemma HeraVault_lock_result:
  "HeraVault_lock pf data password w =
     (if storage_accepts pf HERA_VAULT_CORE (JSON_stringify pf (artifact_v1 pf data password w))
      then (Inr (), (sealed_world pf data password w)
              \<lparr>localStorage := (localStorage w)
                 (HERA_VAULT_CORE \<mapsto> JSON_stringify pf (artifact_v1 pf data password w))\<rparr>)
      else (Inl (Error ''Security Breach: Encryption Failed.''), sealed_world pf data password w))"
  by (simp add: HeraVault_lock_def io_defs bufferToBase64_eq artifact_v1_def
      sealed_defs add.assoc)

lemma HeraSecurity_lock_blank:
  "trim password = [] \<Longrightarrow>
   HeraSecurity_lock pf data password w = (Inl (Error ''Invalid Password''), w)"
  by (simp add: HeraSecurity_lock_def io_throw_def)

lemma guarded_locks_reject_empty:
  "HeraSecurity_lock pf data [] w = (Inl (Error ''Invalid Password''), w)"
  "HeraVault96_lock pf data [] w = (Inl (Error ''Password Required''), w)"
  by (simp_all add: HeraSecurity_lock_def HeraVault96_lock_def io_throw_def)

lemma field_bytes_text:
  "get_property vault k = Inr (Some (JStr s)) \<Longrightarrow> field_bytes pf vault k = base64ToBuffer s"
  by (simp add: field_bytes_def ToString_value_def)

lemma artifact_hashed_properties:
  "get_property (artifact_hashed pf v data password w) (js ''salt'') =
     Inr (Some (JStr (base64_text (sealed_salt w))))"
  "get_property (artifact_hashed pf v data password w) (js ''iv'') =
     Inr (Some (JStr (base64_text (sealed_iv w))))"
  "get_property (artifact_hashed pf v data password w) (js ''data'') =
     Inr (Some (JStr (base64_text (sealed_data pf data password w))))"
  "get_property (artifact_hashed pf v data password w) (js ''authHash'') =
     Inr (Some (JStr (base64_text (SHA256 pf (sealed_key pf password w)))))"
  by (simp_all add: artifact_hashed_def get_property_def js_inj)

lemma artifact_v1_properties:
  "get_property (artifact_v1 pf data password w) (js ''salt'') =
     Inr (Some (JStr (base64_text (sealed_salt w))))"
  "get_property (artifact_v1 pf data password w) (js ''iv'') =
     Inr (Some (JStr (base64_text (sealed_iv w))))"
  "get_property (artifact_v1 pf data password w) (js ''data'') =
     Inr (Some (JStr (base64_text (sealed_data pf data password w))))"
  "get_property (artifact_v1 pf data password w) (js ''authHash'') = Inr None"
  by (simp_all add: artifact_v1_def get_property_def js_inj)

lemma artifact_hashed_fields:
  "field_bytes pf (artifact_hashed pf v data password w) (js ''salt'') = Inr (sealed_salt w)"
  "field_bytes pf (artifact_hashed pf v data password w) (js ''iv'') = Inr (sealed_iv w)"
  "field_bytes pf (artifact_hashed pf v data password w) (js ''data'') =
     Inr (sealed_data pf data password w)"
  by (simp_all add: field_bytes_text [OF artifact_hashed_properties(1)]
      field_bytes_text [OF artifact_hashed_properties(2)]
      field_bytes_text [OF artifact_hashed_properties(3)] base64ToBuffer_text)

lemma artifact_v1_fields:
  "field_bytes pf (artifact_v1 pf data password w) (js ''salt'') = Inr (sealed_salt w)"
  "field_bytes pf (artifact_v1 pf data password w) (js ''iv'') = Inr (sealed_iv w)"
  "field_bytes pf (artifact_v1 pf data password w) (js ''data'') =
     Inr (sealed_data pf data password w)"
  by (simp_all add: field_bytes_text [OF artifact_v1_properties(1)]
      field_bytes_text [OF artifact_v1_properties(2)]
      field_bytes_text [OF artifact_v1_properties(3)] base64ToBuffer_text)

text \<open>What \<open>unlock\<close> computes once the artifact has been parsed and its three binary
  fields decoded.\<close>

lemma HeraSecurity_unlock_fields:
  assumes "JSON_parse pf s = Some vault"
    and "field_bytes pf vault (js ''salt'') = Inr salt"
    and "field_bytes pf vault (js ''iv'') = Inr iv"
    and "field_bytes pf vault (js ''data'') = Inr ct"
    and "get_property vault (js ''authHash'') = Inr h"
    and "key = PBKDF2 pf (TextEncoder_encode password) salt iterations"
  shows "HeraSecurity_unlock pf s password w =
     (if Some (JStr (base64_text (SHA256 pf key))) \<noteq> h
      then (Inl (Error ''INVALID_CREDENTIALS''),
            w\<lparr>calls := calls w @ [DeriveKey (TextEncoder_encode password) salt]\<rparr>)
      else ((case AES_GCM_decrypt pf key iv ct of
               None \<Rightarrow> Inl (Error ''DECRYPTION_FAILED'')
             | Some plaintext \<Rightarrow>
                 (case JSON_parse pf (TextDecoder_decode pf plaintext) of
                    None \<Rightarrow> Inl (Error ''DECRYPTION_FAILED'')
                  | Some state \<Rightarrow> Inr state)),
            w\<lparr>calls := calls w @ [DeriveKey (TextEncoder_encode password) salt,
                                   Decrypt key iv ct]\<rparr>))"
  by (simp add: HeraSecurity_unlock_def parse_def assms
      io_bind_def io_return_def io_throw_def io_catch_def io_lift_def
      deriveKey_def subtle_decrypt_def bufferToBase64_eq
      split: option.split)

lemma HeraVault96_unlock_fields:
  assumes "JSON_parse pf s = Some vault"
    and "field_bytes pf vault (js ''salt'') = Inr salt"
    and "field_bytes pf vault (js ''iv'') = Inr iv"
    and "field_bytes pf vault (js ''data'') = Inr ct"
    and "get_property vault (js ''authHash'') = Inr h"
    and "key = PBKDF2 pf (TextEncoder_encode password) salt iterations"
  shows "HeraVault96_unlock pf s password w =
     (if Some (JStr (base64_text (SHA256 pf key))) \<noteq> h
      then (Inl (Error ''INVALID_PASSWORD''),
            w\<lparr>calls := calls w @ [DeriveKey (TextEncoder_encode password) salt]\<rparr>)
      else ((case AES_GCM_decrypt pf key iv ct of
               None \<Rightarrow> Inl (Error ''CORRUPT_VAULT'')
             | Some plaintext \<Rightarrow>
                 (case JSON_parse pf (TextDecoder_decode pf plaintext) of
                    None \<Rightarrow> Inl (Error ''CORRUPT_VAULT'')
                  | Some state \<Rightarrow> Inr state)),
            w\<lparr>calls := calls w @ [DeriveKey (TextEncoder_encode password) salt,
                                   Decrypt key iv ct]\<rparr>))"
  by (simp add: HeraVault96_unlock_def parse_def assms
      io_bind_def io_return_def io_throw_def io_catch_def io_lift_def
      deriveKey_def subtle_decrypt_def bufferToBase64_eq
      split: option.split)

lemma HeraVault_unlock_fields:
  assumes "localStorage w HERA_VAULT_CORE = Some s" and "s \<noteq> []"
    and "JSON_parse pf s = Some vault"
    and "field_bytes pf vault (js ''salt'') = Inr salt"
    and "field_bytes pf vault (js ''iv'') = Inr iv"
    and "field_bytes pf vault (js ''data'') = Inr ct"
    and "key = PBKDF2 pf (TextEncoder_encode password) salt iterations"
  shows "HeraVault_unlock pf password w =
     ((case AES_GCM_decrypt pf key iv ct of
         None \<Rightarrow> Inl (Error ''ACCESS_DENIED: Decryption Failed.'')
       | Some plaintext \<Rightarrow>
           (case JSON_parse pf (TextDecoder_decode pf plaintext) of
              None \<Rightarrow> Inl (Error ''ACCESS_DENIED: Decryption Failed.'')
            | Some state \<Rightarrow> Inr state)),
      w\<lparr>calls := calls w @ [DeriveKey (TextEncoder_encode password) salt,
                             Decrypt key iv ct]\<rparr>)"
  by (simp add: HeraVault_unlock_def parse_def assms
      io_bind_def io_return_def io_throw_def io_catch_def io_lift_def
      localStorage_getItem_def deriveKey_def subtle_decrypt_def
      split: option.split)

lemma base64_text_inj: "base64_text a = base64_text b \<longleftrightarrow> a = b"
proof
  assume "base64_text a = base64_text b"
  then have "base64ToBuffer (base64_text a) = base64ToBuffer (base64_text b)" by simp
  then show "a = b" by (simp only: base64ToBuffer_text sum.inject)
qed simp

lemma HeraSecurity_roundtrip:
  assumes "decrypts_own pf" and "state_roundtrip pf data"
    and "json_roundtrip pf (artifact_hashed pf v data password w)"
  shows "fst (HeraSecurity_unlock pf
            (JSON_stringify pf (artifact_hashed pf v data password w)) password w') = Inr data"
proof -
  let ?vault = "artifact_hashed pf v data password w"
  from assms(3) have p: "JSON_parse pf (JSON_stringify pf ?vault) = Some ?vault"
    by (simp add: json_roundtrip_def)
  have k: "sealed_key pf password w = PBKDF2 pf (TextEncoder_encode password) (sealed_salt w) iterations"
    by (simp add: sealed_key_def)
  show ?thesis
    unfolding HeraSecurity_unlock_fields
      [OF p artifact_hashed_fields artifact_hashed_properties(4) k]
    using assms(1,2)
    by (simp add: decrypts_own_def state_roundtrip_def json_roundtrip_def text_roundtrip_def
        sealed_data_def)
qed

lemma HeraVault96_roundtrip:
  assumes "decrypts_own pf" and "state_roundtrip pf data"
    and "json_roundtrip pf (artifact_hashed pf v data password w)"
  shows "fst (HeraVault96_unlock pf
            (JSON_stringify pf (artifact_hashed pf v data password w)) password w') = Inr data"
proof -
  let ?vault = "artifact_hashed pf v data password w"
  from assms(3) have p: "JSON_parse pf (JSON_stringify pf ?vault) = Some ?vault"
    by (simp add: json_roundtrip_def)
  have k: "sealed_key pf password w = PBKDF2 pf (TextEncoder_encode password) (sealed_salt w) iterations"
    by (simp add: sealed_key_def)
  show ?thesis
    unfolding HeraVault96_unlock_fields
      [OF p artifact_hashed_fields artifact_hashed_properties(4) k]
    using assms(1,2)
    by (simp add: decrypts_own_def state_roundtrip_def json_roundtrip_def text_roundtrip_def
        sealed_data_def)
qed

text \<open>\<open>HeraVault.unlock\<close> on a world whose store holds the artifact of a \<open>lock\<close>.\<close>

lemma HeraVault_roundtrip:
  assumes "decrypts_own pf" and "state_roundtrip pf data"
    and "json_roundtrip pf (artifact_v1 pf data password w)"
    and "JSON_parse pf [] = None"
    and "localStorage w' HERA_VAULT_CORE = Some (JSON_stringify pf (artifact_v1 pf data password w))"
  shows "fst (HeraVault_unlock pf password w') = Inr data"
proof -
  let ?vault = "artifact_v1 pf data password w"
  from assms(3) have p: "JSON_parse pf (JSON_stringify pf ?vault) = Some ?vault"
    by (simp add: json_roundtrip_def)
  with assms(4) have ne: "JSON_stringify pf ?vault \<noteq> []" by auto
  have k: "sealed_key pf password w = PBKDF2 pf (TextEncoder_encode password) (sealed_salt w) iterations"
    by (simp add: sealed_key_def)
  show ?thesis
    unfolding HeraVault_unlock_fields [OF assms(5) ne p artifact_v1_fields k]
    using assms(1,2)
    by (simp add: decrypts_own_def state_roundtrip_def json_roundtrip_def text_roundtrip_def
        sealed_data_def)
qed

text \<open>No variant of \<open>unlock\<close> writes to the store.\<close>

lemma io_lift_world: "snd (io_lift r w) = w"
  by (simp add: io_lift_def)

lemma HeraSecurity_unlock_store:
  "localStorage (snd (HeraSecurity_unlock pf s password w)) = localStorage w"
  by (simp add: HeraSecurity_unlock_def io_defs split: option.split sum.split prod.split)

lemma HeraVault96_unlock_store:
  "localStorage (snd (HeraVault96_unlock pf s password w)) = localStorage w"
  by (simp add: HeraVault96_unlock_def io_defs split: option.split sum.split prod.split)

lemma HeraVault_unlock_store:
  "localStorage (snd (HeraVault_unlock pf password w)) = localStorage w"
  by (simp add: HeraVault_unlock_def io_defs split: option.split sum.split prod.split)

lemma ToString_error:
  "ToString num v = Inl e \<Longrightarrow> e = TypeError"
  "join_elements num xs = Inl e \<Longrightarrow> e = TypeError"
  by (induction num v and num xs arbitrary: e and e rule: ToString_join_elements.induct)
    (auto split: if_splits sum.splits)

lemma atob_error: "atob s = Inl e \<Longrightarrow> e = InvalidCharacterError"
  by (auto simp: atob_def Let_def split: if_splits)

lemma base64ToBuffer_error: "base64ToBuffer s = Inl e \<Longrightarrow> e = InvalidCharacterError"
  by (auto simp: base64ToBuffer_def dest: atob_error split: sum.splits)

lemma field_bytes_error:
  "field_bytes pf vault k = Inl e \<Longrightarrow> e = TypeError \<or> e = InvalidCharacterError"
  by (auto simp: field_bytes_def get_property_def ToString_value_def
      dest: ToString_error base64ToBuffer_error split: sum.splits json.splits option.splits)

lemma atob_undefined: "atob (js ''undefined'') = Inl InvalidCharacterError"
  by (simp add: atob_def js_def strip_padding_def ascii_whitespace_def Let_def)

lemma field_bytes_missing:
  "map_of kvs k = None \<Longrightarrow> field_bytes pf (JObj kvs) k = Inl InvalidCharacterError"
  by (simp add: field_bytes_def get_property_def ToString_value_def base64ToBuffer_def
      atob_undefined)

lemma field_bytes_lacking:
  assumes "\<forall>x. get_property v k \<noteq> Inr (Some x)"
  shows "field_bytes pf v k = Inl TypeError \<or> field_bytes pf v k = Inl InvalidCharacterError"
proof (cases "get_property v k")
  case (Inl e)
  then have "e = TypeError" by (auto simp: get_property_def split: json.splits)
  with Inl show ?thesis by (simp add: field_bytes_def)
next
  case (Inr r)
  with assms have "r = None" by (cases r) auto
  with Inr show ?thesis
    by (simp add: field_bytes_def ToString_value_def base64ToBuffer_def atob_undefined)
qed

lemma HeraVault96_unlock_undecodable:
  assumes "JSON_parse pf s = Some vault"
    and "field_bytes pf vault (js ''salt'') = Inl e1 \<or>
         field_bytes pf vault (js ''iv'') = Inl e2 \<or>
         field_bytes pf vault (js ''data'') = Inl e3"
  shows "HeraVault96_unlock pf s password w = (Inl (Error ''CORRUPT_VAULT''), w)"
proof -
  have ne: "e \<noteq> Error ''INVALID_PASSWORD''" if "field_bytes pf vault k = Inl e" for k e
    using field_bytes_error [OF that] by auto
  show ?thesis
    using assms(2) ne
    by (auto simp: HeraVault96_unlock_def parse_def assms(1)
        io_bind_def io_return_def io_throw_def io_catch_def io_lift_def
        split: sum.splits)
qed

lemma HeraSecurity_unlock_undecodable:
  assumes "JSON_parse pf s = Some vault"
    and "field_bytes pf vault (js ''salt'') = Inl e1 \<or>
         field_bytes pf vault (js ''iv'') = Inl e2 \<or>
         field_bytes pf vault (js ''data'') = Inl e3"
  shows "HeraSecurity_unlock pf s password w = (Inl TypeError, w) \<or>
         HeraSecurity_unlock pf s password w = (Inl InvalidCharacterError, w)"
proof -
  have ne: "e = TypeError \<or> e = InvalidCharacterError" if "field_bytes pf vault k = Inl e" for k e
    using field_bytes_error [OF that] by auto
  show ?thesis
    using assms(2) ne [of "js ''salt''"] ne [of "js ''iv''"] ne [of "js ''data''"]
    by (auto simp: HeraSecurity_unlock_def parse_def assms(1)
        io_bind_def io_return_def io_throw_def io_catch_def io_lift_def
        split: sum.splits)
qed

lemma HeraVault_unlock_undecodable:
  assumes "localStorage w HERA_VAULT_CORE = Some s" and "s \<noteq> []"
    and "JSON_parse pf s = Some vault"
    and "field_bytes pf vault (js ''salt'') = Inl e1 \<or>
         field_bytes pf vault (js ''iv'') = Inl e2 \<or>
         field_bytes pf vault (js ''data'') = Inl e3"
  shows "HeraVault_unlock pf password w = (Inl (Error ''ACCESS_DENIED: Decryption Failed.''), w)"
  using assms(4)
  by (auto simp: HeraVault_unlock_def parse_def assms(1-3) localStorage_getItem_def
      io_bind_def io_return_def io_throw_def io_catch_def io_lift_def
      split: sum.splits)

lemma unlock_unparseable:
  assumes "JSON_parse pf s = None"
  shows "HeraSecurity_unlock pf s password w = (Inl SyntaxError, w)"
    and "HeraVault96_unlock pf s password w = (Inl (Error ''CORRUPT_VAULT''), w)"
    and "localStorage w HERA_VAULT_CORE = Some s \<Longrightarrow> s \<noteq> [] \<Longrightarrow>
         HeraVault_unlock pf password w = (Inl (Error ''ACCESS_DENIED: Decryption Failed.''), w)"
  by (simp_all add: HeraSecurity_unlock_def HeraVault96_unlock_def HeraVault_unlock_def
      parse_def assms localStorage_getItem_def
      io_bind_def io_return_def io_throw_def io_catch_def io_lift_def)

section \<open>The claims on every platform\<close>

lemma get_property_with_property:
  "get_property (with_property (JObj kvs) k v) k' =
     (if k' = k then Inr (Some v) else get_property (JObj kvs) k')"
  by (simp add: get_property_def with_property_def update_conv')

lemma field_bytes_with_property:
  "k' \<noteq> k \<Longrightarrow> field_bytes pf (with_property (JObj kvs) k v) k' = field_bytes pf (JObj kvs) k'"
  by (simp add: field_bytes_def get_property_with_property)

lemma artifact_hashed_object: "\<exists>kvs. artifact_hashed pf v data password w = JObj kvs"
  by (simp add: artifact_hashed_def)

lemma artifact_v1_object: "\<exists>kvs. artifact_v1 pf data password w = JObj kvs"
  by (simp add: artifact_v1_def)

lemma unlock_cong:
  assumes "JSON_parse pf s = Some vault" and "JSON_parse pf s' = Some vault'"
    and "field_bytes pf vault' (js ''salt'') = field_bytes pf vault (js ''salt'')"
    and "field_bytes pf vault' (js ''iv'') = field_bytes pf vault (js ''iv'')"
    and "field_bytes pf vault' (js ''data'') = field_bytes pf vault (js ''data'')"
    and "get_property vault' (js ''authHash'') = get_property vault (js ''authHash'')"
  shows "HeraSecurity_unlock pf s' password w = HeraSecurity_unlock pf s password w"
    and "HeraVault96_unlock pf s' password w = HeraVault96_unlock pf s password w"
  by (simp_all add: HeraSecurity_unlock_def HeraVault96_unlock_def parse_def assms
      io_bind_def io_lift_def io_catch_def cong: sum.case_cong)

lemma HeraVault_unlock_cong:
  assumes "JSON_parse pf s = Some vault" and "JSON_parse pf s' = Some vault'"
    and "field_bytes pf vault' (js ''salt'') = field_bytes pf vault (js ''salt'')"
    and "field_bytes pf vault' (js ''iv'') = field_bytes pf vault (js ''iv'')"
    and "field_bytes pf vault' (js ''data'') = field_bytes pf vault (js ''data'')"
    and "localStorage w HERA_VAULT_CORE = Some s" and "s \<noteq> []"
    and "localStorage w' HERA_VAULT_CORE = Some s'" and "s' \<noteq> []"
    and "calls w' = calls w"
  shows "fst (HeraVault_unlock pf password w') = fst (HeraVault_unlock pf password w)"
  by (simp add: HeraVault_unlock_def parse_def assms localStorage_getItem_def
      io_bind_def io_return_def io_throw_def io_catch_def io_lift_def
      deriveKey_def subtle_decrypt_def split: sum.split option.split)

text \<open>
  Claim C5, as amended.  No variant of \<open>unlock\<close> reads the \<open>version\<close> field: an
  artifact whose \<open>version\<close> is replaced by any value opens exactly as the artifact
  with the original \<open>version\<close> does.
\<close>
theorem version_not_read:
  assumes "JSON_parse pf s = Some (JObj kvs)"
    and "JSON_parse pf s' = Some (with_property (JObj kvs) (js ''version'') ver)"
  shows "HeraSecurity_unlock pf s' password w = HeraSecurity_unlock pf s password w \<and>
         HeraVault96_unlock pf s' password w = HeraVault96_unlock pf s password w \<and>
         (s \<noteq> [] \<and> s' \<noteq> [] \<longrightarrow>
            fst (HeraVault_unlock pf password
                   (w\<lparr>localStorage := (localStorage w)(HERA_VAULT_CORE \<mapsto> s')\<rparr>)) =
            fst (HeraVault_unlock pf password
                   (w\<lparr>localStorage := (localStorage w)(HERA_VAULT_CORE \<mapsto> s)\<rparr>)))"
proof -
  have ne: "js ''salt'' \<noteq> js ''version''" "js ''iv'' \<noteq> js ''version''"
    "js ''data'' \<noteq> js ''version''" "js ''authHash'' \<noteq> js ''version''"
    by (simp_all add: js_inj)
  note f = field_bytes_with_property [OF ne(1)] field_bytes_with_property [OF ne(2)]
    field_bytes_with_property [OF ne(3)]
  have g: "get_property (with_property (JObj kvs) (js ''version'') ver) (js ''authHash'') =
      get_property (JObj kvs) (js ''authHash'')"
    using ne(4) by (simp add: get_property_with_property)
  show ?thesis
    using unlock_cong [OF assms f g]
      HeraVault_unlock_cong [OF assms f, of
        "w\<lparr>localStorage := (localStorage w)(HERA_VAULT_CORE \<mapsto> s)\<rparr>"
        "w\<lparr>localStorage := (localStorage w)(HERA_VAULT_CORE \<mapsto> s')\<rparr>"]
    by simp
qed

text \<open>
  Claim C10.  When nothing is stored under \<open>HERA_VAULT_CORE\<close>, \<open>HeraVault.unlock\<close>
  returns \<open>null\<close> for every password, throws nothing and leaves the world as it was;
  so does the variant with the server-side guard.
\<close>
theorem unlock_without_vault:
  "localStorage w HERA_VAULT_CORE = None \<Longrightarrow>
     HeraVault_unlock pf password w = (Inr JNull, w) \<and>
     HeraVault_unlock_guarded pf password w = (Inr JNull, w)"
  by (simp add: HeraVault_unlock_guarded_def HeraVault_unlock_def localStorage_getItem_def
      io_bind_def io_return_def)

text \<open>
  Claim C1, as amended.  On a platform whose AES-GCM decrypts what it encrypted and
  whose JSON and UTF-8 functions read back the state and the artifact, sealing a state
  with \<open>lock\<close> and opening the result with the same password returns the state: for
  the v96 \<open>HeraVault\<close> with every non-empty password; for \<open>HeraVault\<close> of
  \<open>src/lib/HeraVault.ts\<close> with every password, when \<open>localStorage\<close> accepts the
  write; for \<open>HeraSecurity\<close> with every password that has a character other than white
  space.  \<open>HeraSecurity.lock\<close> rejects every other password with \<open>Invalid Password\<close>
  and changes nothing.
\<close>
theorem lock_unlock_roundtrip:
  assumes "decrypts_own pf" and "state_roundtrip pf data"
  shows
    "(trim password \<noteq> [] \<and>
      json_roundtrip pf (artifact_hashed pf ''v98-gold'' data password w) \<longrightarrow>
        fst (HeraSecurity_lock pf data password w) =
          Inr (JSON_stringify pf (artifact_hashed pf ''v98-gold'' data password w)) \<and>
        fst (HeraSecurity_unlock pf
               (JSON_stringify pf (artifact_hashed pf ''v98-gold'' data password w))
               password w') = Inr data) \<and>
     (trim password = [] \<longrightarrow>
        HeraSecurity_lock pf data password w = (Inl (Error ''Invalid Password''), w)) \<and>
     (password \<noteq> [] \<and>
      json_roundtrip pf (artifact_hashed pf ''v96-forensic'' data password w) \<longrightarrow>
        fst (HeraVault96_lock pf data password w) =
          Inr (JSON_stringify pf (artifact_hashed pf ''v96-forensic'' data password w)) \<and>
        fst (HeraVault96_unlock pf
               (JSON_stringify pf (artifact_hashed pf ''v96-forensic'' data password w))
               password w') = Inr data) \<and>
     (json_roundtrip pf (artifact_v1 pf data password w) \<and> JSON_parse pf [] = None \<and>
      storage_accepts pf HERA_VAULT_CORE (JSON_stringify pf (artifact_v1 pf data password w)) \<longrightarrow>
        fst (HeraVault_lock pf data password w) = Inr () \<and>
        fst (HeraVault_unlock pf password (snd (HeraVault_lock pf data password w))) = Inr data)"
proof (intro conjI impI)
  assume a: "trim password \<noteq> [] \<and>
      json_roundtrip pf (artifact_hashed pf ''v98-gold'' data password w)"
  then show "fst (HeraSecurity_lock pf data password w) =
      Inr (JSON_stringify pf (artifact_hashed pf ''v98-gold'' data password w))"
    by (simp add: HeraSecurity_lock_result)
  from a have "json_roundtrip pf (artifact_hashed pf ''v98-gold'' data password w)" by simp
  with assms
  show "fst (HeraSecurity_unlock pf
               (JSON_stringify pf (artifact_hashed pf ''v98-gold'' data password w))
               password w') = Inr data"
    by (rule HeraSecurity_roundtrip)
next
  assume "trim password = []"
  then show "HeraSecurity_lock pf data password w = (Inl (Error ''Invalid Password''), w)"
    by (rule HeraSecurity_lock_blank)
next
  assume a: "password \<noteq> [] \<and>
      json_roundtrip pf (artifact_hashed pf ''v96-forensic'' data password w)"
  then show "fst (HeraVault96_lock pf data password w) =
      Inr (JSON_stringify pf (artifact_hashed pf ''v96-forensic'' data password w))"
    by (simp add: HeraVault96_lock_result)
  from a have "json_roundtrip pf (artifact_hashed pf ''v96-forensic'' data password w)" by simp
  with assms
  show "fst (HeraVault96_unlock pf
               (JSON_stringify pf (artifact_hashed pf ''v96-forensic'' data password w))
               password w') = Inr data"
    by (rule HeraVault96_roundtrip)
next
  assume a: "json_roundtrip pf (artifact_v1 pf data password w) \<and> JSON_parse pf [] = None \<and>
      storage_accepts pf HERA_VAULT_CORE (JSON_stringify pf (artifact_v1 pf data password w))"
  then show "fst (HeraVault_lock pf data password w) = Inr ()"
    by (simp add: HeraVault_lock_result)
  from a have st: "localStorage (snd (HeraVault_lock pf data password w)) HERA_VAULT_CORE =
      Some (JSON_stringify pf (artifact_v1 pf data password w))"
    by (simp add: HeraVault_lock_result)
  from a HeraVault_roundtrip [OF assms _ _ st]
  show "fst (HeraVault_unlock pf password (snd (HeraVault_lock pf data password w))) = Inr data"
    by blast
qed

text \<open>
  Claim C8.  An attempt to open an artifact, with whatever password and whatever
  outcome, leaves \<open>localStorage\<close> as it was, and opening the same artifact afterwards
  with the correct password returns the original state, for \<open>HeraSecurity\<close> and for
  \<open>HeraVault\<close> of \<open>src/lib/HeraVault.ts\<close>.
\<close>
theorem failed_open_keeps_artifact:
  assumes "decrypts_own pf" and "state_roundtrip pf data"
  shows
    "(json_roundtrip pf (artifact_hashed pf ''v98-gold'' data password w) \<longrightarrow>
        localStorage (snd (HeraSecurity_unlock pf
           (JSON_stringify pf (artifact_hashed pf ''v98-gold'' data password w)) wrong w')) =
          localStorage w' \<and>
        fst (HeraSecurity_unlock pf
               (JSON_stringify pf (artifact_hashed pf ''v98-gold'' data password w)) password
               (snd (HeraSecurity_unlock pf
                  (JSON_stringify pf (artifact_hashed pf ''v98-gold'' data password w))
                  wrong w'))) = Inr data) \<and>
     (json_roundtrip pf (artifact_v1 pf data password w) \<and> JSON_parse pf [] = None \<and>
      localStorage w' HERA_VAULT_CORE =
        Some (JSON_stringify pf (artifact_v1 pf data password w)) \<longrightarrow>
        localStorage (snd (HeraVault_unlock pf wrong w')) = localStorage w' \<and>
        fst (HeraVault_unlock pf password (snd (HeraVault_unlock pf wrong w'))) = Inr data)"
proof (intro conjI impI)
  assume j: "json_roundtrip pf (artifact_hashed pf ''v98-gold'' data password w)"
  show "localStorage (snd (HeraSecurity_unlock pf
           (JSON_stringify pf (artifact_hashed pf ''v98-gold'' data password w)) wrong w')) =
          localStorage w'"
    by (rule HeraSecurity_unlock_store)
  show "fst (HeraSecurity_unlock pf
               (JSON_stringify pf (artifact_hashed pf ''v98-gold'' data password w)) password
               (snd (HeraSecurity_unlock pf
                  (JSON_stringify pf (artifact_hashed pf ''v98-gold'' data password w))
                  wrong w'))) = Inr data"
    using assms j by (rule HeraSecurity_roundtrip)
next
  assume a: "json_roundtrip pf (artifact_v1 pf data password w) \<and> JSON_parse pf [] = None \<and>
      localStorage w' HERA_VAULT_CORE =
        Some (JSON_stringify pf (artifact_v1 pf data password w))"
  show s: "localStorage (snd (HeraVault_unlock pf wrong w')) = localStorage w'"
    by (rule HeraVault_unlock_store)
  from a have "localStorage (snd (HeraVault_unlock pf wrong w')) HERA_VAULT_CORE =
        Some (JSON_stringify pf (artifact_v1 pf data password w))"
    by (simp add: s)
  with a HeraVault_roundtrip [OF assms]
  show "fst (HeraVault_unlock pf password (snd (HeraVault_unlock pf wrong w'))) = Inr data"
    by blast
qed

text \<open>
  Claim C2, as amended.  Opening an artifact sealed with one password using another
  password fails, and returns no state, whenever the two keys derived under the
  artifact's salt have different SHA-256 digests: \<open>HeraSecurity.unlock\<close> throws
  \<open>INVALID_CREDENTIALS\<close> and the v96 \<open>HeraVault.unlock\<close> throws
  \<open>INVALID_PASSWORD\<close>.  \<open>HeraVault.unlock\<close> of \<open>src/lib/HeraVault.ts\<close>, which stores
  no digest, throws \<open>ACCESS_DENIED\<close> whenever AES-GCM rejects the ciphertext under
  the other key.
\<close>
theorem wrong_password_rejected:
  "(json_roundtrip pf (artifact_hashed pf v data password1 w) \<and>
    SHA256 pf (PBKDF2 pf (TextEncoder_encode password2) (sealed_salt w) iterations) \<noteq>
    SHA256 pf (sealed_key pf password1 w) \<longrightarrow>
      fst (HeraSecurity_unlock pf
             (JSON_stringify pf (artifact_hashed pf v data password1 w)) password2 w') =
        Inl (Error ''INVALID_CREDENTIALS'') \<and>
      fst (HeraVault96_unlock pf
             (JSON_stringify pf (artifact_hashed pf v data password1 w)) password2 w') =
        Inl (Error ''INVALID_PASSWORD'')) \<and>
   (json_roundtrip pf (artifact_v1 pf data password1 w) \<and> JSON_parse pf [] = None \<and>
    localStorage w' HERA_VAULT_CORE =
      Some (JSON_stringify pf (artifact_v1 pf data password1 w)) \<and>
    AES_GCM_decrypt pf (PBKDF2 pf (TextEncoder_encode password2) (sealed_salt w) iterations)
      (sealed_iv w) (sealed_data pf data password1 w) = None \<longrightarrow>
      fst (HeraVault_unlock pf password2 w') = Inl (Error ''ACCESS_DENIED: Decryption Failed.''))"
proof (intro conjI impI)
  let ?vault = "artifact_hashed pf v data password1 w"
  assume a: "json_roundtrip pf ?vault \<and>
    SHA256 pf (PBKDF2 pf (TextEncoder_encode password2) (sealed_salt w) iterations) \<noteq>
    SHA256 pf (sealed_key pf password1 w)"
  then have p: "JSON_parse pf (JSON_stringify pf ?vault) = Some ?vault"
    by (simp add: json_roundtrip_def)
  from a show "fst (HeraSecurity_unlock pf (JSON_stringify pf ?vault) password2 w') =
        Inl (Error ''INVALID_CREDENTIALS'')"
    by (simp add: HeraSecurity_unlock_fields
      [OF p artifact_hashed_fields artifact_hashed_properties(4) refl] base64_text_inj)
  from a show "fst (HeraVault96_unlock pf (JSON_stringify pf ?vault) password2 w') =
        Inl (Error ''INVALID_PASSWORD'')"
    by (simp add: HeraVault96_unlock_fields
      [OF p artifact_hashed_fields artifact_hashed_properties(4) refl] base64_text_inj)
next
  let ?vault = "artifact_v1 pf data password1 w"
  assume a: "json_roundtrip pf ?vault \<and> JSON_parse pf [] = None \<and>
    localStorage w' HERA_VAULT_CORE = Some (JSON_stringify pf ?vault) \<and>
    AES_GCM_decrypt pf (PBKDF2 pf (TextEncoder_encode password2) (sealed_salt w) iterations)
      (sealed_iv w) (sealed_data pf data password1 w) = None"
  then have p: "JSON_parse pf (JSON_stringify pf ?vault) = Some ?vault"
    by (simp add: json_roundtrip_def)
  with a have ne: "JSON_stringify pf ?vault \<noteq> []" by auto
  from a have st: "localStorage w' HERA_VAULT_CORE = Some (JSON_stringify pf ?vault)" by simp
  from a show "fst (HeraVault_unlock pf password2 w') =
      Inl (Error ''ACCESS_DENIED: Decryption Failed.'')"
    by (simp add: HeraVault_unlock_fields [OF st ne p artifact_v1_fields refl])
qed

text \<open>
  Claim C6, as amended.  For every input that \<open>JSON.parse\<close> rejects, or that parses to
  a value without a \<open>salt\<close>, \<open>iv\<close> or \<open>data\<close> property (an object lacking one, or
  \<open>null\<close>, a number, a string, a boolean, an array), \<open>unlock\<close> returns no state and
  leaves the world as it was (no key is derived): the v96 \<open>HeraVault.unlock\<close> throws
  \<open>CORRUPT_VAULT\<close>; \<open>HeraSecurity.unlock\<close> lets the \<open>SyntaxError\<close>, \<open>TypeError\<close>
  or \<open>InvalidCharacterError\<close> of the platform escape; \<open>HeraVault.unlock\<close> of
  \<open>src/lib/HeraVault.ts\<close> throws \<open>ACCESS_DENIED\<close>, the error it throws for every
  failure, except that it returns \<open>null\<close> when the stored text is empty.
\<close>
theorem malformed_input_fails:
  fixes pf :: "'n platform"
  assumes "JSON_parse pf s = None \<or>
     (\<exists>v. JSON_parse pf s = Some v \<and>
        ((\<forall>x. get_property v (js ''salt'') \<noteq> Inr (Some x)) \<or>
         (\<forall>x. get_property v (js ''iv'') \<noteq> Inr (Some x)) \<or>
         (\<forall>x. get_property v (js ''data'') \<noteq> Inr (Some x))))"
  shows "HeraVault96_unlock pf s password w = (Inl (Error ''CORRUPT_VAULT''), w) \<and>
     (HeraSecurity_unlock pf s password w = (Inl SyntaxError, w) \<or>
      HeraSecurity_unlock pf s password w = (Inl TypeError, w) \<or>
      HeraSecurity_unlock pf s password w = (Inl InvalidCharacterError, w)) \<and>
     (localStorage w HERA_VAULT_CORE = Some s \<longrightarrow>
        HeraVault_unlock pf password w =
          (if s = [] then Inr JNull else Inl (Error ''ACCESS_DENIED: Decryption Failed.''), w))"
proof -
  have empty: "HeraVault_unlock pf password w = (Inr JNull, w)"
    if "localStorage w HERA_VAULT_CORE = Some []"
    using that by (simp add: HeraVault_unlock_def localStorage_getItem_def io_bind_def io_return_def)
  from assms consider (unparseable) "JSON_parse pf s = None"
    | (incomplete) v :: "'n json"
        where "JSON_parse pf s = Some v"
        "(\<forall>x. get_property v (js ''salt'') \<noteq> Inr (Some x)) \<or>
         (\<forall>x. get_property v (js ''iv'') \<noteq> Inr (Some x)) \<or>
         (\<forall>x. get_property v (js ''data'') \<noteq> Inr (Some x))"
    by auto
  then show ?thesis
  proof cases
    case unparseable
    from unlock_unparseable [OF this] empty show ?thesis by auto
  next
    case incomplete
    note p = incomplete(1)
    from incomplete(2) field_bytes_lacking [of v _ pf]
    obtain e where f: "field_bytes pf v (js ''salt'') = Inl e \<or>
         field_bytes pf v (js ''iv'') = Inl e \<or>
         field_bytes pf v (js ''data'') = Inl e"
      by metis
    from HeraVault96_unlock_undecodable [OF p f] HeraSecurity_unlock_undecodable [OF p f]
      HeraVault_unlock_undecodable [OF _ _ p f] empty
    show ?thesis by auto
  qed
qed

text \<open>
  Claim C4, as amended.  Take an artifact produced by \<open>lock\<close> and replace its \<open>data\<close>
  field by a text that \<open>atob\<close> cannot decode, or that decodes to bytes which AES-GCM
  rejects under the key of the correct password.  Opening it with the correct password
  returns no state: the v96 \<open>HeraVault.unlock\<close> throws \<open>CORRUPT_VAULT\<close>;
  \<open>HeraSecurity.unlock\<close> throws \<open>DECRYPTION_FAILED\<close>, or lets the
  \<open>InvalidCharacterError\<close> of \<open>atob\<close> escape; \<open>HeraVault.unlock\<close> of
  \<open>src/lib/HeraVault.ts\<close> throws \<open>ACCESS_DENIED\<close>.
\<close>
theorem tampered_data_rejected:
  assumes "\<forall>ct'. base64ToBuffer d' = Inr ct' \<longrightarrow>
     AES_GCM_decrypt pf (sealed_key pf password w) (sealed_iv w) ct' = None"
  shows
    "(json_roundtrip pf
        (with_property (artifact_hashed pf v data password w) (js ''data'') (JStr d')) \<longrightarrow>
        fst (HeraVault96_unlock pf
               (JSON_stringify pf
                  (with_property (artifact_hashed pf v data password w) (js ''data'') (JStr d')))
               password w') = Inl (Error ''CORRUPT_VAULT'') \<and>
        fst (HeraSecurity_unlock pf
               (JSON_stringify pf
                  (with_property (artifact_hashed pf v data password w) (js ''data'') (JStr d')))
               password w') =
          (case base64ToBuffer d' of
             Inl e \<Rightarrow> Inl InvalidCharacterError
           | Inr ct' \<Rightarrow> Inl (Error ''DECRYPTION_FAILED''))) \<and>
     (json_roundtrip pf
        (with_property (artifact_v1 pf data password w) (js ''data'') (JStr d')) \<and>
      JSON_parse pf [] = None \<and>
      localStorage w' HERA_VAULT_CORE =
        Some (JSON_stringify pf
                (with_property (artifact_v1 pf data password w) (js ''data'') (JStr d'))) \<longrightarrow>
        fst (HeraVault_unlock pf password w') = Inl (Error ''ACCESS_DENIED: Decryption Failed.''))"
proof (intro conjI impI)
  obtain kvs where o: "artifact_hashed pf v data password w = JObj kvs"
    using artifact_hashed_object by blast
  let ?vault = "with_property (artifact_hashed pf v data password w) (js ''data'') (JStr d')"
  assume "json_roundtrip pf ?vault"
  then have p: "JSON_parse pf (JSON_stringify pf ?vault) = Some ?vault"
    by (simp add: json_roundtrip_def)
  have ne: "js ''salt'' \<noteq> js ''data''" "js ''iv'' \<noteq> js ''data''" "js ''authHash'' \<noteq> js ''data''"
    by (simp_all add: js_inj)
  have fs: "field_bytes pf ?vault (js ''salt'') = Inr (sealed_salt w)"
    and fi: "field_bytes pf ?vault (js ''iv'') = Inr (sealed_iv w)"
    using field_bytes_with_property [OF ne(1), of pf kvs] field_bytes_with_property [OF ne(2), of pf kvs]
      artifact_hashed_fields(1,2) [of pf v data password w]
    by (simp_all add: o)
  have fd: "field_bytes pf ?vault (js ''data'') = base64ToBuffer d'"
    by (rule field_bytes_text) (simp add: o get_property_with_property)
  have ga: "get_property ?vault (js ''authHash'') =
      Inr (Some (JStr (base64_text (SHA256 pf (sealed_key pf password w)))))"
    using artifact_hashed_properties(4) [of pf v data password w] ne(3)
    by (simp add: o get_property_with_property)
  have k: "sealed_key pf password w = PBKDF2 pf (TextEncoder_encode password) (sealed_salt w) iterations"
    by (simp add: sealed_key_def)
  show "fst (HeraVault96_unlock pf (JSON_stringify pf ?vault) password w') =
      Inl (Error ''CORRUPT_VAULT'')"
  proof (cases "base64ToBuffer d'")
    case (Inl e)
    with fd have "field_bytes pf ?vault (js ''salt'') = Inl e \<or>
        field_bytes pf ?vault (js ''iv'') = Inl e \<or>
        field_bytes pf ?vault (js ''data'') = Inl e" by simp
    from HeraVault96_unlock_undecodable [OF p this] show ?thesis by simp
  next
    case (Inr ct')
    with fd have d: "field_bytes pf ?vault (js ''data'') = Inr ct'" by simp
    from Inr assms have "AES_GCM_decrypt pf (sealed_key pf password w) (sealed_iv w) ct' = None"
      by simp
    then show ?thesis by (simp add: HeraVault96_unlock_fields [OF p fs fi d ga k])
  qed
  show "fst (HeraSecurity_unlock pf (JSON_stringify pf ?vault) password w') =
      (case base64ToBuffer d' of
         Inl e \<Rightarrow> Inl InvalidCharacterError
       | Inr ct' \<Rightarrow> Inl (Error ''DECRYPTION_FAILED''))"
  proof (cases "base64ToBuffer d'")
    case (Inl e)
    then have "e = InvalidCharacterError" by (rule base64ToBuffer_error)
    with Inl fd have "field_bytes pf ?vault (js ''data'') = Inl InvalidCharacterError" by simp
    with Inl show ?thesis
      by (simp add: HeraSecurity_unlock_def parse_def p fs fi
          io_bind_def io_lift_def)
  next
    case (Inr ct')
    with fd have d: "field_bytes pf ?vault (js ''data'') = Inr ct'" by simp
    from Inr assms have "AES_GCM_decrypt pf (sealed_key pf password w) (sealed_iv w) ct' = None"
      by simp
    with Inr show ?thesis by (simp add: HeraSecurity_unlock_fields [OF p fs fi d ga k])
  qed
next
  obtain kvs where o: "artifact_v1 pf data password w = JObj kvs"
    using artifact_v1_object by blast
  let ?vault = "with_property (artifact_v1 pf data password w) (js ''data'') (JStr d')"
  assume a: "json_roundtrip pf ?vault \<and> JSON_parse pf [] = None \<and>
      localStorage w' HERA_VAULT_CORE = Some (JSON_stringify pf ?vault)"
  then have p: "JSON_parse pf (JSON_stringify pf ?vault) = Some ?vault"
    by (simp add: json_roundtrip_def)
  with a have nonempty: "JSON_stringify pf ?vault \<noteq> []" by auto
  from a have st: "localStorage w' HERA_VAULT_CORE = Some (JSON_stringify pf ?vault)" by simp
  have ne: "js ''salt'' \<noteq> js ''data''" "js ''iv'' \<noteq> js ''data''"
    by (simp_all add: js_inj)
  have fs: "field_bytes pf ?vault (js ''salt'') = Inr (sealed_salt w)"
    and fi: "field_bytes pf ?vault (js ''iv'') = Inr (sealed_iv w)"
    using field_bytes_with_property [OF ne(1), of pf kvs] field_bytes_with_property [OF ne(2), of pf kvs]
      artifact_v1_fields(1,2) [of pf data password w]
    by (simp_all add: o)
  have fd: "field_bytes pf ?vault (js ''data'') = base64ToBuffer d'"
    by (rule field_bytes_text) (simp add: o get_property_with_property)
  have k: "sealed_key pf password w = PBKDF2 pf (TextEncoder_encode password) (sealed_salt w) iterations"
    by (simp add: sealed_key_def)
  show "fst (HeraVault_unlock pf password w') = Inl (Error ''ACCESS_DENIED: Decryption Failed.'')"
  proof (cases "base64ToBuffer d'")
    case (Inl e)
    with fd have "field_bytes pf ?vault (js ''salt'') = Inl e \<or>
        field_bytes pf ?vault (js ''iv'') = Inl e \<or>
        field_bytes pf ?vault (js ''data'') = Inl e" by simp
    from HeraVault_unlock_undecodable [OF st nonempty p this] show ?thesis by simp
  next
    case (Inr ct')
    with fd have d: "field_bytes pf ?vault (js ''data'') = Inr ct'" by simp
    from Inr assms have "AES_GCM_decrypt pf (sealed_key pf password w) (sealed_iv w) ct' = None"
      by simp
    then show ?thesis by (simp add: HeraVault_unlock_fields [OF st nonempty p fs fi d k])
  qed
qed

section \<open>Concrete runs on the small platform\<close>

lemma ref_platform_simps:
  "TextDecoder_decode ref_platform = map (\<lambda>b. of_nat (unat b))"
  "JSON_stringify ref_platform = ref_stringify"
  "JSON_parse ref_platform = ref_JSON_parse"
  "Number_toString ref_platform = ref_Number_toString"
  "PBKDF2 ref_platform = ref_PBKDF2"
  "SHA256 ref_platform = rev"
  "AES_GCM_encrypt ref_platform = ref_encrypt"
  "AES_GCM_decrypt ref_platform = ref_decrypt"
  "storage_accepts ref_platform = (\<lambda>k v. True)"
  "window_defined ref_platform = True"
  by (simp_all add: ref_platform_def)

lemma ref_world_simps:
  "localStorage ref_world = Map.empty" "calls ref_world = []" "drawn ref_world = 0"
  "clock ref_world = 1700000000000"
  by (simp_all add: ref_world_def)

lemma ref_decrypts_own: "decrypts_own ref_platform"
  by (simp add: decrypts_own_def ref_platform_simps ref_encrypt_def ref_decrypt_def)

lemma ref_salt: "sealed_salt ref_world = [3, 10, 17, 24, 31, 38, 45, 52, 59, 66, 73, 80, 87, 94, 101, 108]"
  by (simp add: sealed_salt_def ref_world_def saltLen_def upt_rec)

lemma ref_iv: "sealed_iv ref_world = [115, 122, 129, 136, 143, 150, 157, 164, 171, 178, 185, 192]"
  by (simp add: sealed_iv_def ref_world_def saltLen_def ivLen_def upt_rec)

lemma example_state_text: "ref_stringify example_state = [123, 34, 112, 114, 111, 102, 105, 108, 101, 34, 58, 123, 34, 110, 97, 109, 101, 34, 58, 34, 72, 101, 114, 97, 34, 44, 34, 116, 104, 101, 109, 101, 34, 58, 34, 98, 108, 117, 115, 104, 34, 44, 34, 117, 110, 105, 116, 34, 58, 34, 67, 34, 44, 34, 108, 97, 110, 103, 34, 58, 34, 101, 110, 34, 125, 44, 34, 99, 121, 99, 108, 101, 68, 97, 116, 97, 34, 58, 91, 93, 44, 34, 108, 97, 115, 116, 83, 121, 110, 99, 101, 100, 34, 58, 48, 44, 34, 117, 110, 115, 97, 118, 101, 100, 67, 104, 97, 110, 103, 101, 115, 34, 58, 102, 97, 108, 115, 101, 125]"
  by (simp add: example_state_def AppState_json_def DEFAULT_STATE_def UserProfile_json_def
      ref_Number_toString_def js_def)

lemma example_state_bytes: "TextEncoder_encode (ref_stringify example_state) = [123, 34, 112, 114, 111, 102, 105, 108, 101, 34, 58, 123, 34, 110, 97, 109, 101, 34, 58, 34, 72, 101, 114, 97, 34, 44, 34, 116, 104, 101, 109, 101, 34, 58, 34, 98, 108, 117, 115, 104, 34, 44, 34, 117, 110, 105, 116, 34, 58, 34, 67, 34, 44, 34, 108, 97, 110, 103, 34, 58, 34, 101, 110, 34, 125, 44, 34, 99, 121, 99, 108, 101, 68, 97, 116, 97, 34, 58, 91, 93, 44, 34, 108, 97, 115, 116, 83, 121, 110, 99, 101, 100, 34, 58, 48, 44, 34, 117, 110, 115, 97, 118, 101, 100, 67, 104, 97, 110, 103, 101, 115, 34, 58, 102, 97, 108, 115, 101, 125]"
  unfolding example_state_text by (simp add: TextEncoder_encode_def utf8_bytes_def)

lemma ref_state_roundtrip: "state_roundtrip ref_platform example_state"
  unfolding state_roundtrip_def json_roundtrip_def text_roundtrip_def ref_platform_simps
    example_state_bytes
  unfolding example_state_text
  by (simp add: ref_JSON_parse_def is_digit_def example_state_def AppState_json_def
      DEFAULT_STATE_def UserProfile_json_def js_def)

lemma salt64: "base64_text [3, 10, 17, 24, 31, 38, 45, 52, 59, 66, 73, 80, 87, 94, 101, 108] = [65, 119, 111, 82, 71, 66, 56, 109, 76, 84, 81, 55, 81, 107, 108, 81, 86, 49, 53, 108, 98, 65, 61, 61]"
  by (simp add: base64_text_def b64_char_def)

lemma iv64: "base64_text [115, 122, 129, 136, 143, 150, 157, 164, 171, 178, 185, 192] = [99, 51, 113, 66, 105, 73, 43, 87, 110, 97, 83, 114, 115, 114, 110, 65]"
  by (simp add: base64_text_def b64_char_def)

lemma example_bytes: "TextEncoder_encode example_password = [115, 101, 115, 97, 109, 101, 49, 50, 51, 52]"
  by (simp add: example_password_def TextEncoder_encode_def utf8_bytes_def js_def)

lemma example_key: "sealed_key ref_platform example_password ref_world = [115, 101, 115, 97, 109, 101, 49, 50, 51, 52, 3, 10, 17, 24, 31, 38, 45, 52, 59, 66, 73, 80, 87, 94, 101, 108]"
  by (simp add: sealed_key_def ref_platform_simps ref_PBKDF2_def example_bytes ref_salt)

lemma example_data: "sealed_data ref_platform example_state example_password ref_world = [123, 34, 112, 114, 111, 102, 105, 108, 101, 34, 58, 123, 34, 110, 97, 109, 101, 34, 58, 34, 72, 101, 114, 97, 34, 44, 34, 116, 104, 101, 109, 101, 34, 58, 34, 98, 108, 117, 115, 104, 34, 44, 34, 117, 110, 105, 116, 34, 58, 34, 67, 34, 44, 34, 108, 97, 110, 103, 34, 58, 34, 101, 110, 34, 125, 44, 34, 99, 121, 99, 108, 101, 68, 97, 116, 97, 34, 58, 91, 93, 44, 34, 108, 97, 115, 116, 83, 121, 110, 99, 101, 100, 34, 58, 48, 44, 34, 117, 110, 115, 97, 118, 101, 100, 67, 104, 97, 110, 103, 101, 115, 34, 58, 102, 97, 108, 115, 101, 125, 115, 101, 115, 97, 109, 101, 49, 50, 51, 52, 3, 10, 17, 24, 31, 38, 45, 52, 59, 66, 73, 80, 87, 94, 101, 108, 115, 122, 129, 136, 143, 150, 157, 164, 171, 178, 185, 192]"
  by (simp add: sealed_data_def example_key ref_iv ref_platform_simps ref_encrypt_def
      example_state_bytes)

lemma example_hash64: "base64_text [108, 101, 94, 87, 80, 73, 66, 59, 52, 45, 38, 31, 24, 17, 10, 3, 52, 51, 50, 49, 101, 109, 97, 115, 101, 115] = [98, 71, 86, 101, 86, 49, 66, 74, 81, 106, 115, 48, 76, 83, 89, 102, 71, 66, 69, 75, 65, 122, 81, 122, 77, 106, 70, 108, 98, 87, 70, 122, 90, 88, 77, 61]"
  by (simp add: base64_text_def b64_char_def)

lemma example_data64: "base64_text [123, 34, 112, 114, 111, 102, 105, 108, 101, 34, 58, 123, 34, 110, 97, 109, 101, 34, 58, 34, 72, 101, 114, 97, 34, 44, 34, 116, 104, 101, 109, 101, 34, 58, 34, 98, 108, 117, 115, 104, 34, 44, 34, 117, 110, 105, 116, 34, 58, 34, 67, 34, 44, 34, 108, 97, 110, 103, 34, 58, 34, 101, 110, 34, 125, 44, 34, 99, 121, 99, 108, 101, 68, 97, 116, 97, 34, 58, 91, 93, 44, 34, 108, 97, 115, 116, 83, 121, 110, 99, 101, 100, 34, 58, 48, 44, 34, 117, 110, 115, 97, 118, 101, 100, 67, 104, 97, 110, 103, 101, 115, 34, 58, 102, 97, 108, 115, 101, 125, 115, 101, 115, 97, 109, 101, 49, 50, 51, 52, 3, 10, 17, 24, 31, 38, 45, 52, 59, 66, 73, 80, 87, 94, 101, 108, 115, 122, 129, 136, 143, 150, 157, 164, 171, 178, 185, 192] = [101, 121, 74, 119, 99, 109, 57, 109, 97, 87, 120, 108, 73, 106, 112, 55, 73, 109, 53, 104, 98, 87, 85, 105, 79, 105, 74, 73, 90, 88, 74, 104, 73, 105, 119, 105, 100, 71, 104, 108, 98, 87, 85, 105, 79, 105, 74, 105, 98, 72, 86, 122, 97, 67, 73, 115, 73, 110, 86, 117, 97, 88, 81, 105, 79, 105, 74, 68, 73, 105, 119, 105, 98, 71, 70, 117, 90, 121, 73, 54, 73, 109, 86, 117, 73, 110, 48, 115, 73, 109, 78, 53, 89, 50, 120, 108, 82, 71, 70, 48, 89, 83, 73, 54, 87, 49, 48, 115, 73, 109, 120, 104, 99, 51, 82, 84, 101, 87, 53, 106, 90, 87, 81, 105, 79, 106, 65, 115, 73, 110, 86, 117, 99, 50, 70, 50, 90, 87, 82, 68, 97, 71, 70, 117, 90, 50, 86, 122, 73, 106, 112, 109, 89, 87, 120, 122, 90, 88, 49, 122, 90, 88, 78, 104, 98, 87, 85, 120, 77, 106, 77, 48, 65, 119, 111, 82, 71, 66, 56, 109, 76, 84, 81, 55, 81, 107, 108, 81, 86, 49, 53, 108, 98, 72, 78, 54, 103, 89, 105, 80, 108, 112, 50, 107, 113, 55, 75, 53, 119, 65, 61, 61]"
  by (simp add: base64_text_def b64_char_def)

lemmas example_facts = example_key example_data example_hash64 example_data64 ref_salt ref_iv salt64 iv64
  ref_platform_simps ref_world_simps

lemma surrogate_bytes: "TextEncoder_encode surrogate_password = [239, 191, 189]"
  by (simp add: surrogate_password_def TextEncoder_encode_def utf8_bytes_def js_def)

lemma surrogate_key: "sealed_key ref_platform surrogate_password ref_world = [239, 191, 189, 3, 10, 17, 24, 31, 38, 45, 52, 59, 66, 73, 80, 87, 94, 101, 108]"
  by (simp add: sealed_key_def ref_platform_simps ref_PBKDF2_def surrogate_bytes ref_salt)

lemma surrogate_data: "sealed_data ref_platform example_state surrogate_password ref_world = [123, 34, 112, 114, 111, 102, 105, 108, 101, 34, 58, 123, 34, 110, 97, 109, 101, 34, 58, 34, 72, 101, 114, 97, 34, 44, 34, 116, 104, 101, 109, 101, 34, 58, 34, 98, 108, 117, 115, 104, 34, 44, 34, 117, 110, 105, 116, 34, 58, 34, 67, 34, 44, 34, 108, 97, 110, 103, 34, 58, 34, 101, 110, 34, 125, 44, 34, 99, 121, 99, 108, 101, 68, 97, 116, 97, 34, 58, 91, 93, 44, 34, 108, 97, 115, 116, 83, 121, 110, 99, 101, 100, 34, 58, 48, 44, 34, 117, 110, 115, 97, 118, 101, 100, 67, 104, 97, 110, 103, 101, 115, 34, 58, 102, 97, 108, 115, 101, 125, 239, 191, 189, 3, 10, 17, 24, 31, 38, 45, 52, 59, 66, 73, 80, 87, 94, 101, 108, 115, 122, 129, 136, 143, 150, 157, 164, 171, 178, 185, 192]"
  by (simp add: sealed_data_def surrogate_key ref_iv ref_platform_simps ref_encrypt_def
      example_state_bytes)

lemma surrogate_hash64: "base64_text [108, 101, 94, 87, 80, 73, 66, 59, 52, 45, 38, 31, 24, 17, 10, 3, 189, 191, 239] = [98, 71, 86, 101, 86, 49, 66, 74, 81, 106, 115, 48, 76, 83, 89, 102, 71, 66, 69, 75, 65, 55, 50, 47, 55, 119, 61, 61]"
  by (simp add: base64_text_def b64_char_def)

lemma surrogate_data64: "base64_text [123, 34, 112, 114, 111, 102, 105, 108, 101, 34, 58, 123, 34, 110, 97, 109, 101, 34, 58, 34, 72, 101, 114, 97, 34, 44, 34, 116, 104, 101, 109, 101, 34, 58, 34, 98, 108, 117, 115, 104, 34, 44, 34, 117, 110, 105, 116, 34, 58, 34, 67, 34, 44, 34, 108, 97, 110, 103, 34, 58, 34, 101, 110, 34, 125, 44, 34, 99, 121, 99, 108, 101, 68, 97, 116, 97, 34, 58, 91, 93, 44, 34, 108, 97, 115, 116, 83, 121, 110, 99, 101, 100, 34, 58, 48, 44, 34, 117, 110, 115, 97, 118, 101, 100, 67, 104, 97, 110, 103, 101, 115, 34, 58, 102, 97, 108, 115, 101, 125, 239, 191, 189, 3, 10, 17, 24, 31, 38, 45, 52, 59, 66, 73, 80, 87, 94, 101, 108, 115, 122, 129, 136, 143, 150, 157, 164, 171, 178, 185, 192] = [101, 121, 74, 119, 99, 109, 57, 109, 97, 87, 120, 108, 73, 106, 112, 55, 73, 109, 53, 104, 98, 87, 85, 105, 79, 105, 74, 73, 90, 88, 74, 104, 73, 105, 119, 105, 100, 71, 104, 108, 98, 87, 85, 105, 79, 105, 74, 105, 98, 72, 86, 122, 97, 67, 73, 115, 73, 110, 86, 117, 97, 88, 81, 105, 79, 105, 74, 68, 73, 105, 119, 105, 98, 71, 70, 117, 90, 121, 73, 54, 73, 109, 86, 117, 73, 110, 48, 115, 73, 109, 78, 53, 89, 50, 120, 108, 82, 71, 70, 48, 89, 83, 73, 54, 87, 49, 48, 115, 73, 109, 120, 104, 99, 51, 82, 84, 101, 87, 53, 106, 90, 87, 81, 105, 79, 106, 65, 115, 73, 110, 86, 117, 99, 50, 70, 50, 90, 87, 82, 68, 97, 71, 70, 117, 90, 50, 86, 122, 73, 106, 112, 109, 89, 87, 120, 122, 90, 88, 51, 118, 118, 55, 48, 68, 67, 104, 69, 89, 72, 121, 89, 116, 78, 68, 116, 67, 83, 86, 66, 88, 88, 109, 86, 115, 99, 51, 113, 66, 105, 73, 43, 87, 110, 97, 83, 114, 115, 114, 110, 65]"
  by (simp add: base64_text_def b64_char_def)

lemmas surrogate_facts = surrogate_key surrogate_data surrogate_hash64 surrogate_data64 ref_salt ref_iv salt64 iv64
  ref_platform_simps ref_world_simps

lemma blank_bytes: "TextEncoder_encode blank_password = [32]"
  by (simp add: blank_password_def TextEncoder_encode_def utf8_bytes_def js_def)

lemma blank_key: "sealed_key ref_platform blank_password ref_world = [32, 3, 10, 17, 24, 31, 38, 45, 52, 59, 66, 73, 80, 87, 94, 101, 108]"
  by (simp add: sealed_key_def ref_platform_simps ref_PBKDF2_def blank_bytes ref_salt)

lemma blank_data: "sealed_data ref_platform example_state blank_password ref_world = [123, 34, 112, 114, 111, 102, 105, 108, 101, 34, 58, 123, 34, 110, 97, 109, 101, 34, 58, 34, 72, 101, 114, 97, 34, 44, 34, 116, 104, 101, 109, 101, 34, 58, 34, 98, 108, 117, 115, 104, 34, 44, 34, 117, 110, 105, 116, 34, 58, 34, 67, 34, 44, 34, 108, 97, 110, 103, 34, 58, 34, 101, 110, 34, 125, 44, 34, 99, 121, 99, 108, 101, 68, 97, 116, 97, 34, 58, 91, 93, 44, 34, 108, 97, 115, 116, 83, 121, 110, 99, 101, 100, 34, 58, 48, 44, 34, 117, 110, 115, 97, 118, 101, 100, 67, 104, 97, 110, 103, 101, 115, 34, 58, 102, 97, 108, 115, 101, 125, 32, 3, 10, 17, 24, 31, 38, 45, 52, 59, 66, 73, 80, 87, 94, 101, 108, 115, 122, 129, 136, 143, 150, 157, 164, 171, 178, 185, 192]"
  by (simp add: sealed_data_def blank_key ref_iv ref_platform_simps ref_encrypt_def
      example_state_bytes)

lemma blank_hash64: "base64_text [108, 101, 94, 87, 80, 73, 66, 59, 52, 45, 38, 31, 24, 17, 10, 3, 32] = [98, 71, 86, 101, 86, 49, 66, 74, 81, 106, 115, 48, 76, 83, 89, 102, 71, 66, 69, 75, 65, 121, 65, 61]"
  by (simp add: base64_text_def b64_char_def)

lemma blank_data64: "base64_text [123, 34, 112, 114, 111, 102, 105, 108, 101, 34, 58, 123, 34, 110, 97, 109, 101, 34, 58, 34, 72, 101, 114, 97, 34, 44, 34, 116, 104, 101, 109, 101, 34, 58, 34, 98, 108, 117, 115, 104, 34, 44, 34, 117, 110, 105, 116, 34, 58, 34, 67, 34, 44, 34, 108, 97, 110, 103, 34, 58, 34, 101, 110, 34, 125, 44, 34, 99, 121, 99, 108, 101, 68, 97, 116, 97, 34, 58, 91, 93, 44, 34, 108, 97, 115, 116, 83, 121, 110, 99, 101, 100, 34, 58, 48, 44, 34, 117, 110, 115, 97, 118, 101, 100, 67, 104, 97, 110, 103, 101, 115, 34, 58, 102, 97, 108, 115, 101, 125, 32, 3, 10, 17, 24, 31, 38, 45, 52, 59, 66, 73, 80, 87, 94, 101, 108, 115, 122, 129, 136, 143, 150, 157, 164, 171, 178, 185, 192] = [101, 121, 74, 119, 99, 109, 57, 109, 97, 87, 120, 108, 73, 106, 112, 55, 73, 109, 53, 104, 98, 87, 85, 105, 79, 105, 74, 73, 90, 88, 74, 104, 73, 105, 119, 105, 100, 71, 104, 108, 98, 87, 85, 105, 79, 105, 74, 105, 98, 72, 86, 122, 97, 67, 73, 115, 73, 110, 86, 117, 97, 88, 81, 105, 79, 105, 74, 68, 73, 105, 119, 105, 98, 71, 70, 117, 90, 121, 73, 54, 73, 109, 86, 117, 73, 110, 48, 115, 73, 109, 78, 53, 89, 50, 120, 108, 82, 71, 70, 48, 89, 83, 73, 54, 87, 49, 48, 115, 73, 109, 120, 104, 99, 51, 82, 84, 101, 87, 53, 106, 90, 87, 81, 105, 79, 106, 65, 115, 73, 110, 86, 117, 99, 50, 70, 50, 90, 87, 82, 68, 97, 71, 70, 117, 90, 50, 86, 122, 73, 106, 112, 109, 89, 87, 120, 122, 90, 88, 48, 103, 65, 119, 111, 82, 71, 66, 56, 109, 76, 84, 81, 55, 81, 107, 108, 81, 86, 49, 53, 108, 98, 72, 78, 54, 103, 89, 105, 80, 108, 112, 50, 107, 113, 55, 75, 53, 119, 65, 61, 61]"
  by (simp add: base64_text_def b64_char_def)

lemmas blank_facts = blank_key blank_data blank_hash64 blank_data64 ref_salt ref_iv salt64 iv64
  ref_platform_simps ref_world_simps

lemma example_artifact98: "json_roundtrip ref_platform
    (artifact_hashed ref_platform ''v98-gold'' example_state example_password ref_world)"
  by (simp add: json_roundtrip_def artifact_hashed_def example_facts ref_JSON_parse_def js_def)

lemma example_artifact96: "json_roundtrip ref_platform
    (artifact_hashed ref_platform ''v96-forensic'' example_state example_password ref_world)"
  by (simp add: json_roundtrip_def artifact_hashed_def example_facts ref_JSON_parse_def js_def)

lemma example_artifactX: "json_roundtrip ref_platform
    (artifact_hashed ref_platform ''vX-future'' example_state example_password ref_world)"
  by (simp add: json_roundtrip_def artifact_hashed_def example_facts ref_JSON_parse_def js_def)

lemma surrogate_artifact98: "json_roundtrip ref_platform
    (artifact_hashed ref_platform ''v98-gold'' example_state surrogate_password ref_world)"
  by (simp add: json_roundtrip_def artifact_hashed_def surrogate_facts ref_JSON_parse_def js_def)

lemma blank_artifact96: "json_roundtrip ref_platform
    (artifact_hashed ref_platform ''v96-forensic'' example_state blank_password ref_world)"
  by (simp add: json_roundtrip_def artifact_hashed_def blank_facts ref_JSON_parse_def js_def)

lemma example_artifact_v1: "json_roundtrip ref_platform
    (artifact_v1 ref_platform example_state example_password ref_world)"
  by (simp add: json_roundtrip_def artifact_v1_def example_facts ref_JSON_parse_def js_def
      ref_Number_toString_def is_digit_def)

lemma blank_artifact_v1: "json_roundtrip ref_platform
    (artifact_v1 ref_platform example_state blank_password ref_world)"
  by (simp add: json_roundtrip_def artifact_v1_def blank_facts ref_JSON_parse_def js_def
      ref_Number_toString_def is_digit_def)

lemma ref_parse_empty: "JSON_parse ref_platform [] = None"
  by (simp add: ref_platform_simps ref_JSON_parse_def)

lemma example_password_trim: "trim example_password \<noteq> []"
  by (simp add: example_password_def js_def trim_def js_whitespace_def)

lemma example_stored:
  "localStorage (snd (HeraVault_lock ref_platform example_state example_password ref_world))
     HERA_VAULT_CORE =
   Some (JSON_stringify ref_platform
           (artifact_v1 ref_platform example_state example_password ref_world))"
  by (simp add: HeraVault_lock_result ref_platform_simps)

lemma blank_password_trim: "blank_password \<noteq> []" "trim blank_password = []"
  by (simp_all add: blank_password_def js_def trim_def js_whitespace_def)

text \<open>The round trip of the default state, whose \<open>cycleData\<close> is empty, on the small
  platform, with the password \<open>sesame1234\<close> and with the password of one space.\<close>
theorem lock_unlock_roundtrip_witness:
  "fst (HeraSecurity_lock ref_platform example_state example_password ref_world) =
     Inr (JSON_stringify ref_platform
            (artifact_hashed ref_platform ''v98-gold'' example_state example_password ref_world)) \<and>
   fst (HeraSecurity_unlock ref_platform
          (JSON_stringify ref_platform
             (artifact_hashed ref_platform ''v98-gold'' example_state example_password ref_world))
          example_password
          (snd (HeraSecurity_lock ref_platform example_state example_password ref_world))) =
     Inr example_state \<and>
   fst (HeraVault96_lock ref_platform example_state example_password ref_world) =
     Inr (JSON_stringify ref_platform
            (artifact_hashed ref_platform ''v96-forensic'' example_state example_password
               ref_world)) \<and>
   fst (HeraVault96_unlock ref_platform
          (JSON_stringify ref_platform
             (artifact_hashed ref_platform ''v96-forensic'' example_state example_password
                ref_world))
          example_password
          (snd (HeraVault96_lock ref_platform example_state example_password ref_world))) =
     Inr example_state \<and>
   fst (HeraVault_lock ref_platform example_state example_password ref_world) = Inr () \<and>
   fst (HeraVault_unlock ref_platform example_password
          (snd (HeraVault_lock ref_platform example_state example_password ref_world))) =
     Inr example_state \<and>
   HeraSecurity_lock ref_platform example_state blank_password ref_world =
     (Inl (Error ''Invalid Password''), ref_world) \<and>
   fst (HeraVault96_lock ref_platform example_state blank_password ref_world) =
     Inr (JSON_stringify ref_platform
            (artifact_hashed ref_platform ''v96-forensic'' example_state blank_password
               ref_world)) \<and>
   fst (HeraVault96_unlock ref_platform
          (JSON_stringify ref_platform
             (artifact_hashed ref_platform ''v96-forensic'' example_state blank_password
                ref_world))
          blank_password
          (snd (HeraVault96_lock ref_platform example_state blank_password ref_world))) =
     Inr example_state \<and>
   fst (HeraVault_lock ref_platform example_state blank_password ref_world) = Inr () \<and>
   fst (HeraVault_unlock ref_platform blank_password
          (snd (HeraVault_lock ref_platform example_state blank_password ref_world))) =
     Inr example_state"
  using lock_unlock_roundtrip
      [OF ref_decrypts_own ref_state_roundtrip,
        where password = example_password and w = ref_world
          and w' = "snd (HeraSecurity_lock ref_platform example_state example_password ref_world)"]
    lock_unlock_roundtrip
      [OF ref_decrypts_own ref_state_roundtrip,
        where password = example_password and w = ref_world
          and w' = "snd (HeraVault96_lock ref_platform example_state example_password ref_world)"]
    lock_unlock_roundtrip
      [OF ref_decrypts_own ref_state_roundtrip,
        where password = blank_password and w = ref_world
          and w' = "snd (HeraVault96_lock ref_platform example_state blank_password ref_world)"]
    example_artifact98 example_artifact96 example_artifact_v1 blank_artifact96 blank_artifact_v1
    ref_parse_empty example_password_trim trim_nonempty [OF example_password_trim]
    blank_password_trim
  by (simp add: ref_platform_simps)

text \<open>\<open>HeraSecurity.lock\<close> rejects the password that is one space, which is not
  empty: no artifact is produced.\<close>
theorem blank_password_counterexample:
  "blank_password \<noteq> [] \<and>
   fst (HeraSecurity_lock ref_platform example_state blank_password ref_world) =
     Inl (Error ''Invalid Password'')"
  by (simp add: HeraSecurity_lock_def blank_password_def js_def trim_def js_whitespace_def
      io_throw_def)

lemma wrong_bytes: "TextEncoder_encode example_wrong_password = [119, 114, 111, 110, 103]"
  by (simp add: example_wrong_password_def TextEncoder_encode_def utf8_bytes_def js_def)

text \<open>A wrong password on the small platform.\<close>
theorem wrong_password_rejected_witness:
  "fst (HeraSecurity_unlock ref_platform
          (JSON_stringify ref_platform
             (artifact_hashed ref_platform ''v98-gold'' example_state example_password ref_world))
          example_wrong_password ref_world) = Inl (Error ''INVALID_CREDENTIALS'') \<and>
   fst (HeraVault96_unlock ref_platform
          (JSON_stringify ref_platform
             (artifact_hashed ref_platform ''v98-gold'' example_state example_password ref_world))
          example_wrong_password ref_world) = Inl (Error ''INVALID_PASSWORD'') \<and>
   fst (HeraVault_unlock ref_platform example_wrong_password
          (snd (HeraVault_lock ref_platform example_state example_password ref_world))) =
     Inl (Error ''ACCESS_DENIED: Decryption Failed.'')"
proof -
  have digest: "SHA256 ref_platform
      (PBKDF2 ref_platform (TextEncoder_encode example_wrong_password) (sealed_salt ref_world)
         iterations) \<noteq>
      SHA256 ref_platform (sealed_key ref_platform example_password ref_world)"
    by (simp add: ref_platform_simps ref_PBKDF2_def wrong_bytes example_key ref_salt)
  have rejected: "AES_GCM_decrypt ref_platform
      (PBKDF2 ref_platform (TextEncoder_encode example_wrong_password) (sealed_salt ref_world)
         iterations)
      (sealed_iv ref_world)
      (sealed_data ref_platform example_state example_password ref_world) = None"
    by (simp add: ref_platform_simps ref_PBKDF2_def ref_decrypt_def wrong_bytes example_data
        ref_salt ref_iv)
  show ?thesis
    using wrong_password_rejected [where pf = ref_platform and v = "''v98-gold''"
        and data = example_state and ?password1.0 = example_password and w = ref_world
        and ?password2.0 = example_wrong_password and w' = ref_world]
      wrong_password_rejected [where pf = ref_platform and v = "''v98-gold''"
        and data = example_state and ?password1.0 = example_password and w = ref_world
        and ?password2.0 = example_wrong_password
        and w' = "snd (HeraVault_lock ref_platform example_state example_password ref_world)"]
      example_artifact98 example_artifact_v1 ref_parse_empty example_stored digest rejected
    by simp
qed

lemma unlock_password_bytes:
  "TextEncoder_encode p = TextEncoder_encode p' \<Longrightarrow>
   HeraSecurity_unlock pf s p w = HeraSecurity_unlock pf s p' w"
  by (simp add: HeraSecurity_unlock_def deriveKey_def)

lemma replacement_bytes: "TextEncoder_encode replacement_password = [239, 191, 189]"
  by (simp add: replacement_password_def TextEncoder_encode_def utf8_bytes_def)

text \<open>
  Two different passwords with the same UTF-8 encoding: an unpaired surrogate and
  U+FFFD.  The artifact sealed with the first opens with the second.
\<close>
theorem surrogate_password_counterexample:
  "replacement_password \<noteq> surrogate_password \<and>
   fst (HeraSecurity_lock ref_platform example_state surrogate_password ref_world) =
     Inr (JSON_stringify ref_platform
            (artifact_hashed ref_platform ''v98-gold'' example_state surrogate_password
               ref_world)) \<and>
   fst (HeraSecurity_unlock ref_platform
          (JSON_stringify ref_platform
             (artifact_hashed ref_platform ''v98-gold'' example_state surrogate_password
                ref_world))
          replacement_password
          (snd (HeraSecurity_lock ref_platform example_state surrogate_password ref_world))) =
     Inr example_state"
proof -
  have t: "trim surrogate_password \<noteq> []"
    by (simp add: surrogate_password_def trim_def js_whitespace_def)
  have "TextEncoder_encode replacement_password = TextEncoder_encode surrogate_password"
    by (simp only: replacement_bytes surrogate_bytes)
  from unlock_password_bytes [OF this, where pf = ref_platform]
    HeraSecurity_roundtrip [OF ref_decrypts_own ref_state_roundtrip surrogate_artifact98]
  have "fst (HeraSecurity_unlock ref_platform
          (JSON_stringify ref_platform
             (artifact_hashed ref_platform ''v98-gold'' example_state surrogate_password
                ref_world))
          replacement_password
          (snd (HeraSecurity_lock ref_platform example_state surrogate_password ref_world))) =
     Inr example_state"
    by simp
  moreover have "replacement_password \<noteq> surrogate_password"
    by (simp add: replacement_password_def surrogate_password_def)
  ultimately show ?thesis by (simp add: HeraSecurity_lock_result [OF t])
qed

text \<open>
  Claim C3 on \<open>HeraVault.lock\<close> of \<open>src/lib/HeraVault.ts\<close>, which has no check of the
  password: with the empty password the call succeeds, and the key derivation receives
  the empty byte sequence and the cipher is run.  (\<open>guarded_locks_reject_empty\<close> above
  is the check that \<open>HeraSecurity.lock\<close> and the v96 \<open>HeraVault.lock\<close> have.)
\<close>
theorem HeraVault_lock_accepts_empty_password:
  "fst (HeraVault_lock ref_platform example_state [] ref_world) = Inr () \<and>
   calls (snd (HeraVault_lock ref_platform example_state [] ref_world)) =
     [DeriveKey [] (sealed_salt ref_world),
      Encrypt (sealed_key ref_platform [] ref_world) (sealed_iv ref_world)
        (TextEncoder_encode (JSON_stringify ref_platform example_state))]"
  by (simp add: HeraVault_lock_result sealed_world_def ref_platform_simps ref_world_simps
      TextEncoder_encode_def)

text \<open>An artifact that declares the version \<open>vX-future\<close> opens with the right
  password and returns the state.\<close>
theorem future_version_counterexample:
  "fst (HeraSecurity_unlock ref_platform
          (JSON_stringify ref_platform
             (artifact_hashed ref_platform ''vX-future'' example_state example_password ref_world))
          example_password ref_world) = Inr example_state"
  using ref_decrypts_own ref_state_roundtrip example_artifactX by (rule HeraSecurity_roundtrip)

text \<open>The empty store of the small platform.\<close>
theorem unlock_without_vault_witness:
  "HeraVault_unlock ref_platform example_password ref_world = (Inr JNull, ref_world) \<and>
   HeraVault_unlock_guarded ref_platform example_password ref_world = (Inr JNull, ref_world)"
  using unlock_without_vault [of ref_world ref_platform example_password]
  by (simp add: ref_world_simps)

text \<open>A wrong password, then the right one, on the small platform.\<close>
theorem failed_open_keeps_artifact_witness:
  "fst (HeraSecurity_unlock ref_platform
          (JSON_stringify ref_platform
             (artifact_hashed ref_platform ''v98-gold'' example_state example_password ref_world))
          example_password
          (snd (HeraSecurity_unlock ref_platform
                  (JSON_stringify ref_platform
                     (artifact_hashed ref_platform ''v98-gold'' example_state example_password
                        ref_world))
                  example_wrong_password ref_world))) = Inr example_state \<and>
   fst (HeraVault_unlock ref_platform example_password
          (snd (HeraVault_unlock ref_platform example_wrong_password
                  (snd (HeraVault_lock ref_platform example_state example_password
                          ref_world))))) = Inr example_state"
  using failed_open_keeps_artifact [OF ref_decrypts_own ref_state_roundtrip,
      where password = example_password and w = ref_world and wrong = example_wrong_password
        and w' = "snd (HeraVault_lock ref_platform example_state example_password ref_world)"]
    failed_open_keeps_artifact [OF ref_decrypts_own ref_state_roundtrip,
      where password = example_password and w = ref_world and wrong = example_wrong_password
        and w' = ref_world]
    example_artifact98 example_artifact_v1 ref_parse_empty example_stored
  by simp

lemma list_update_Cons_numeral: "(x # xs)[numeral v := y] = x # xs[numeral v - 1 := y]"
  by (simp add: numeral_eq_Suc)

lemma list_update_Cons_1: "(x # xs)[1 := y] = x # xs[0 := y]"
  by simp

lemma with_data_hashed:
  "with_property (artifact_hashed pf v data password w) (js ''data'') x =
     JObj [(js ''salt'', JStr (base64_text (sealed_salt w))),
           (js ''iv'', JStr (base64_text (sealed_iv w))),
           (js ''authHash'', JStr (base64_text (SHA256 pf (sealed_key pf password w)))),
           (js ''data'', x),
           (js ''version'', JStr (js v))]"
  by (simp add: with_property_def artifact_hashed_def js_inj)

lemma with_data_v1:
  "with_property (artifact_v1 pf data password w) (js ''data'') x =
     JObj [(js ''salt'', JStr (base64_text (sealed_salt w))),
           (js ''iv'', JStr (base64_text (sealed_iv w))),
           (js ''data'', x),
           (js ''version'', JStr (js ''v1.0-forensic'')),
           (js ''timestamp'', JNum (clock w))]"
  by (simp add: with_property_def artifact_v1_def js_inj)

lemma with_version_hashed:
  "with_property (artifact_hashed pf v data password w) (js ''version'') (JStr (js v')) =
     artifact_hashed pf v' data password w"
  by (simp add: with_property_def artifact_hashed_def js_inj)

lemma without_authHash:
  "without_property (artifact_hashed pf v data password w) (js ''authHash'') =
     JObj [(js ''salt'', JStr (base64_text (sealed_salt w))),
           (js ''iv'', JStr (base64_text (sealed_iv w))),
           (js ''data'', JStr (base64_text (sealed_data pf data password w))),
           (js ''version'', JStr (js v))]"
  by (simp add: without_property_def artifact_hashed_def js_inj)

lemma tampered_value: "tampered_data = [101, 121, 74, 119, 99, 109, 57, 109, 97, 87, 120, 108, 73, 106, 112, 55, 73, 109, 53, 104, 98, 87, 85, 105, 79, 105, 74, 73, 90, 88, 74, 104, 73, 105, 119, 105, 100, 71, 104, 108, 98, 87, 85, 105, 79, 105, 74, 105, 98, 72, 86, 122, 97, 67, 73, 115, 73, 110, 86, 117, 97, 88, 81, 105, 79, 105, 74, 68, 73, 105, 119, 105, 98, 71, 70, 117, 90, 121, 73, 54, 73, 109, 86, 117, 73, 110, 48, 115, 73, 109, 78, 53, 89, 50, 120, 108, 82, 71, 70, 48, 89, 83, 73, 54, 87, 49, 48, 115, 73, 109, 120, 104, 99, 51, 82, 84, 101, 87, 53, 106, 90, 87, 81, 105, 79, 106, 65, 115, 73, 110, 86, 117, 99, 50, 70, 50, 90, 87, 82, 68, 97, 71, 70, 117, 90, 50, 86, 122, 73, 106, 112, 109, 89, 87, 120, 122, 90, 88, 49, 122, 90, 88, 78, 104, 98, 87, 85, 120, 77, 106, 77, 48, 65, 119, 111, 82, 71, 66, 56, 109, 76, 84, 81, 55, 81, 107, 108, 81, 86, 49, 53, 108, 98, 72, 78, 54, 103, 89, 105, 80, 108, 112, 50, 107, 113, 55, 75, 53, 119, 66, 61, 61]"
  by (simp add: tampered_data_def example_data example_data64 list_update_Cons_numeral
      list_update_Cons_1)

lemma tampered_differs:
  "tampered_data \<noteq> base64_text (sealed_data ref_platform example_state example_password ref_world)"
  by (simp add: tampered_value example_data example_data64)

lemma tampered_decodes:
  "base64ToBuffer tampered_data =
     Inr (sealed_data ref_platform example_state example_password ref_world)"
  by (simp add: tampered_value example_data base64ToBuffer_def atob_def strip_padding_def
      ascii_whitespace_def b64_index_def store_Uint8_def Let_def)

lemma replaced_decodes: "base64ToBuffer replaced_data = Inr [0, 0, 0]"
  by (simp add: replaced_data_def js_def base64ToBuffer_def atob_def strip_padding_def
      ascii_whitespace_def b64_index_def store_Uint8_def Let_def)

lemma tampered_artifact: "json_roundtrip ref_platform
    (with_property (artifact_hashed ref_platform ''v96-forensic'' example_state example_password
       ref_world) (js ''data'') (JStr tampered_data))"
  unfolding json_roundtrip_def with_data_hashed
  by (simp add: tampered_value example_facts ref_JSON_parse_def js_def)

lemma replaced_artifact: "json_roundtrip ref_platform
    (with_property (artifact_hashed ref_platform ''v96-forensic'' example_state example_password
       ref_world) (js ''data'') (JStr replaced_data))"
  unfolding json_roundtrip_def with_data_hashed
  by (simp add: replaced_data_def example_facts ref_JSON_parse_def js_def)

lemma replaced_artifact_v1: "json_roundtrip ref_platform
    (with_property (artifact_v1 ref_platform example_state example_password ref_world)
       (js ''data'') (JStr replaced_data))"
  unfolding json_roundtrip_def with_data_v1
  by (simp add: replaced_data_def example_facts ref_JSON_parse_def js_def
      ref_Number_toString_def is_digit_def)

lemma incomplete_artifact: "json_roundtrip ref_platform
    (without_property (artifact_hashed ref_platform ''v98-gold'' example_state example_password
       ref_world) (js ''authHash''))"
  unfolding json_roundtrip_def without_authHash
  by (simp add: example_facts ref_JSON_parse_def js_def)

lemma not_json_rejected: "JSON_parse ref_platform not_json = None"
  by (simp add: not_json_def ref_platform_simps ref_JSON_parse_def is_digit_def js_def)

lemma without_salt_text: "JSON_parse ref_platform (ref_stringify without_salt) = Some without_salt"
  by (simp add: without_salt_def ref_platform_simps ref_JSON_parse_def js_def)

lemma null_text: "JSON_parse ref_platform (js ''null'') = Some JNull"
  by (simp add: ref_platform_simps ref_JSON_parse_def is_digit_def js_def)

lemma null_lacks_salt: "\<forall>x. get_property (JNull :: int json) (js ''salt'') \<noteq> Inr (Some x)"
  by (simp add: get_property_def)

lemma without_salt_lacks_salt: "\<forall>x. get_property without_salt (js ''salt'') \<noteq> Inr (Some x)"
  by (simp add: get_property_def without_salt_def js_inj)

lemma HeraSecurity_unlock_null:
  "HeraSecurity_unlock ref_platform (js ''null'') password w = (Inl TypeError, w)"
  by (simp add: HeraSecurity_unlock_def parse_def null_text field_bytes_def get_property_def
      io_bind_def io_lift_def)

lemma HeraSecurity_unlock_without_salt:
  "HeraSecurity_unlock ref_platform (ref_stringify without_salt) password w =
     (Inl InvalidCharacterError, w)"
  by (simp add: HeraSecurity_unlock_def parse_def without_salt_text field_bytes_missing
      io_bind_def io_lift_def)
    (simp add: without_salt_def js_inj field_bytes_missing)

lemma reencoded_data_opens:
  assumes "decrypts_own pf" and "state_roundtrip pf data"
    and "json_roundtrip pf
       (with_property (artifact_hashed pf v data password w) (js ''data'') (JStr d'))"
    and "base64ToBuffer d' = Inr (sealed_data pf data password w)"
  shows "fst (HeraVault96_unlock pf
            (JSON_stringify pf
               (with_property (artifact_hashed pf v data password w) (js ''data'') (JStr d')))
            password w') = Inr data"
proof -
  let ?vault = "with_property (artifact_hashed pf v data password w) (js ''data'') (JStr d')"
  from assms(3) have p: "JSON_parse pf (JSON_stringify pf ?vault) = Some ?vault"
    by (simp add: json_roundtrip_def)
  have fs: "field_bytes pf ?vault (js ''salt'') = Inr (sealed_salt w)"
    and fi: "field_bytes pf ?vault (js ''iv'') = Inr (sealed_iv w)"
    unfolding with_data_hashed
    by (simp_all add: field_bytes_def get_property_def ToString_value_def js_inj
        base64ToBuffer_text)
  have fd: "field_bytes pf ?vault (js ''data'') = Inr (sealed_data pf data password w)"
    unfolding with_data_hashed
    by (simp add: field_bytes_def get_property_def ToString_value_def js_inj assms(4))
  have ga: "get_property ?vault (js ''authHash'') =
      Inr (Some (JStr (base64_text (SHA256 pf (sealed_key pf password w)))))"
    unfolding with_data_hashed by (simp add: get_property_def js_inj)
  have k: "sealed_key pf password w = PBKDF2 pf (TextEncoder_encode password) (sealed_salt w) iterations"
    by (simp add: sealed_key_def)
  show ?thesis
    unfolding HeraVault96_unlock_fields [OF p fs fi fd ga k]
    using assms(1,2)
    by (simp add: decrypts_own_def state_roundtrip_def json_roundtrip_def text_roundtrip_def
        sealed_data_def)
qed

text \<open>
  One character of the \<open>data\<close> field changed, in the bits that \<open>atob\<close> discards
  before the padding: the text differs, the decoded ciphertext is the same, and
  \<open>unlock\<close> returns the state.
\<close>
theorem padding_bits_counterexample:
  "tampered_data \<noteq>
     base64_text (sealed_data ref_platform example_state example_password ref_world) \<and>
   fst (HeraVault96_unlock ref_platform
          (JSON_stringify ref_platform
             (with_property
                (artifact_hashed ref_platform ''v96-forensic'' example_state example_password
                   ref_world)
                (js ''data'') (JStr tampered_data)))
          example_password ref_world) = Inr example_state"
  using tampered_differs
    reencoded_data_opens [OF ref_decrypts_own ref_state_roundtrip tampered_artifact
      tampered_decodes]
  by simp

text \<open>The \<open>data\<close> field replaced by \<open>AAAA\<close> on the small platform.\<close>
theorem tampered_data_rejected_witness:
  "fst (HeraVault96_unlock ref_platform
          (JSON_stringify ref_platform
             (with_property
                (artifact_hashed ref_platform ''v96-forensic'' example_state example_password
                   ref_world)
                (js ''data'') (JStr replaced_data)))
          example_password ref_world) = Inl (Error ''CORRUPT_VAULT'') \<and>
   fst (HeraSecurity_unlock ref_platform
          (JSON_stringify ref_platform
             (with_property
                (artifact_hashed ref_platform ''v96-forensic'' example_state example_password
                   ref_world)
                (js ''data'') (JStr replaced_data)))
          example_password ref_world) = Inl (Error ''DECRYPTION_FAILED'') \<and>
   fst (HeraVault_unlock ref_platform example_password
          (ref_world\<lparr>localStorage :=
             [HERA_VAULT_CORE \<mapsto>
                JSON_stringify ref_platform
                  (with_property
                     (artifact_v1 ref_platform example_state example_password ref_world)
                     (js ''data'') (JStr replaced_data))]\<rparr>)) =
     Inl (Error ''ACCESS_DENIED: Decryption Failed.'')"
proof -
  have rejected: "\<forall>ct'. base64ToBuffer replaced_data = Inr ct' \<longrightarrow>
      AES_GCM_decrypt ref_platform (sealed_key ref_platform example_password ref_world)
        (sealed_iv ref_world) ct' = None"
    by (simp add: replaced_decodes ref_platform_simps ref_decrypt_def example_key ref_iv)
  show ?thesis
    using tampered_data_rejected [OF rejected, where v = "''v96-forensic''"
        and data = example_state and w' = ref_world]
      tampered_data_rejected [OF rejected, where v = "''v96-forensic''"
        and data = example_state
        and w' = "ref_world\<lparr>localStorage :=
             [HERA_VAULT_CORE \<mapsto>
                JSON_stringify ref_platform
                  (with_property
                     (artifact_v1 ref_platform example_state example_password ref_world)
                     (js ''data'') (JStr replaced_data))]\<rparr>"]
      replaced_artifact replaced_artifact_v1 ref_parse_empty
    by (simp add: replaced_decodes)
qed

text \<open>The example artifact with the versions \<open>v98-gold\<close> and \<open>vX-future\<close>.\<close>
theorem version_not_read_witness:
  "HeraSecurity_unlock ref_platform
     (JSON_stringify ref_platform
        (artifact_hashed ref_platform ''vX-future'' example_state example_password ref_world))
     example_password ref_world =
   HeraSecurity_unlock ref_platform
     (JSON_stringify ref_platform
        (artifact_hashed ref_platform ''v98-gold'' example_state example_password ref_world))
     example_password ref_world \<and>
   HeraVault96_unlock ref_platform
     (JSON_stringify ref_platform
        (artifact_hashed ref_platform ''vX-future'' example_state example_password ref_world))
     example_password ref_world =
   HeraVault96_unlock ref_platform
     (JSON_stringify ref_platform
        (artifact_hashed ref_platform ''v98-gold'' example_state example_password ref_world))
     example_password ref_world \<and>
   fst (HeraVault_unlock ref_platform example_password
          (ref_world\<lparr>localStorage :=
             [HERA_VAULT_CORE \<mapsto>
                JSON_stringify ref_platform
                  (artifact_hashed ref_platform ''vX-future'' example_state example_password
                     ref_world)]\<rparr>)) =
   fst (HeraVault_unlock ref_platform example_password
          (ref_world\<lparr>localStorage :=
             [HERA_VAULT_CORE \<mapsto>
                JSON_stringify ref_platform
                  (artifact_hashed ref_platform ''v98-gold'' example_state example_password
                     ref_world)]\<rparr>))"
proof -
  let ?a = "artifact_hashed ref_platform ''v98-gold'' example_state example_password ref_world"
  let ?b = "artifact_hashed ref_platform ''vX-future'' example_state example_password ref_world"
  obtain kvs where o: "?a = JObj kvs" using artifact_hashed_object by blast
  from example_artifact98 have p: "JSON_parse ref_platform (JSON_stringify ref_platform ?a) = Some (JObj kvs)"
    by (simp add: json_roundtrip_def o)
  have "with_property (JObj kvs) (js ''version'') (JStr (js ''vX-future'')) = ?b"
    using with_version_hashed [of ref_platform "''v98-gold''" example_state example_password
        ref_world "''vX-future''"]
    by (simp add: o)
  with example_artifactX
  have p': "JSON_parse ref_platform (JSON_stringify ref_platform ?b) =
      Some (with_property (JObj kvs) (js ''version'') (JStr (js ''vX-future'')))"
    by (simp add: json_roundtrip_def)
  from p ref_parse_empty have ne: "JSON_stringify ref_platform ?a \<noteq> []" by auto
  from p' ref_parse_empty have ne': "JSON_stringify ref_platform ?b \<noteq> []" by auto
  show ?thesis
    using version_not_read [OF p p', of example_password ref_world] ne ne'
    by (simp add: ref_world_simps)
qed

lemma stored_world_storage: "localStorage (stored_world s) HERA_VAULT_CORE = Some s"
  by (simp add: stored_world_def)

text \<open>The texts \<open>not json\<close> and \<open>null\<close>, an object without \<open>salt\<close>, and the empty
  text, on the small platform.\<close>
theorem malformed_input_fails_witness:
  "HeraVault96_unlock ref_platform not_json example_password (stored_world not_json) =
     (Inl (Error ''CORRUPT_VAULT''), stored_world not_json) \<and>
   HeraSecurity_unlock ref_platform not_json example_password (stored_world not_json) =
     (Inl SyntaxError, stored_world not_json) \<and>
   HeraVault_unlock ref_platform example_password (stored_world not_json) =
     (Inl (Error ''ACCESS_DENIED: Decryption Failed.''), stored_world not_json) \<and>
   HeraVault96_unlock ref_platform (js ''null'') example_password (stored_world (js ''null'')) =
     (Inl (Error ''CORRUPT_VAULT''), stored_world (js ''null'')) \<and>
   HeraSecurity_unlock ref_platform (js ''null'') example_password (stored_world (js ''null'')) =
     (Inl TypeError, stored_world (js ''null'')) \<and>
   HeraVault_unlock ref_platform example_password (stored_world (js ''null'')) =
     (Inl (Error ''ACCESS_DENIED: Decryption Failed.''), stored_world (js ''null'')) \<and>
   HeraVault96_unlock ref_platform (ref_stringify without_salt) example_password
       (stored_world (ref_stringify without_salt)) =
     (Inl (Error ''CORRUPT_VAULT''), stored_world (ref_stringify without_salt)) \<and>
   HeraSecurity_unlock ref_platform (ref_stringify without_salt) example_password
       (stored_world (ref_stringify without_salt)) =
     (Inl InvalidCharacterError, stored_world (ref_stringify without_salt)) \<and>
   HeraVault_unlock ref_platform example_password (stored_world (ref_stringify without_salt)) =
     (Inl (Error ''ACCESS_DENIED: Decryption Failed.''),
      stored_world (ref_stringify without_salt)) \<and>
   HeraVault96_unlock ref_platform [] example_password (stored_world []) =
     (Inl (Error ''CORRUPT_VAULT''), stored_world []) \<and>
   HeraSecurity_unlock ref_platform [] example_password (stored_world []) =
     (Inl SyntaxError, stored_world []) \<and>
   HeraVault_unlock ref_platform example_password (stored_world []) =
     (Inr JNull, stored_world [])"
proof -
  have ne: "not_json \<noteq> []" "js ''null'' \<noteq> []" "ref_stringify without_salt \<noteq> []"
    by (simp_all add: not_json_def js_def without_salt_def)
  have s: "HeraSecurity_unlock ref_platform not_json example_password (stored_world not_json) =
       (Inl SyntaxError, stored_world not_json)"
    "HeraSecurity_unlock ref_platform [] example_password (stored_world []) =
       (Inl SyntaxError, stored_world [])"
    by (rule unlock_unparseable(1) [OF not_json_rejected])
      (rule unlock_unparseable(1) [OF ref_parse_empty])
  have a: "\<exists>v. JSON_parse ref_platform (js ''null'') = Some v \<and>
        ((\<forall>x. get_property v (js ''salt'') \<noteq> Inr (Some x)) \<or>
         (\<forall>x. get_property v (js ''iv'') \<noteq> Inr (Some x)) \<or>
         (\<forall>x. get_property v (js ''data'') \<noteq> Inr (Some x)))"
    using null_text null_lacks_salt by blast
  have b: "\<exists>v. JSON_parse ref_platform (ref_stringify without_salt) = Some v \<and>
        ((\<forall>x. get_property v (js ''salt'') \<noteq> Inr (Some x)) \<or>
         (\<forall>x. get_property v (js ''iv'') \<noteq> Inr (Some x)) \<or>
         (\<forall>x. get_property v (js ''data'') \<noteq> Inr (Some x)))"
    using without_salt_text without_salt_lacks_salt by blast
  from malformed_input_fails [OF disjI1 [OF not_json_rejected], of example_password
      "stored_world not_json"]
    malformed_input_fails [OF disjI2 [OF a], of example_password "stored_world (js ''null'')"]
    malformed_input_fails [OF disjI2 [OF b], of example_password
      "stored_world (ref_stringify without_salt)"]
    malformed_input_fails [OF disjI1 [OF ref_parse_empty], of example_password "stored_world []"]
    ne s
  show ?thesis
    by (simp add: stored_world_storage HeraSecurity_unlock_null HeraSecurity_unlock_without_salt)
qed

text \<open>An artifact of \<open>HeraSecurity.lock\<close> without its \<open>authHash\<close> property, opened
  with the right password: the error is the one for a wrong password.\<close>
theorem missing_authHash_counterexample:
  "fst (HeraSecurity_unlock ref_platform
          (JSON_stringify ref_platform
             (without_property
                (artifact_hashed ref_platform ''v98-gold'' example_state example_password
                   ref_world)
                (js ''authHash'')))
          example_password ref_world) = Inl (Error ''INVALID_CREDENTIALS'')"
proof -
  let ?vault = "without_property
      (artifact_hashed ref_platform ''v98-gold'' example_state example_password ref_world)
      (js ''authHash'')"
  from incomplete_artifact
  have p: "JSON_parse ref_platform (JSON_stringify ref_platform ?vault) = Some ?vault"
    by (simp add: json_roundtrip_def)
  have fs: "field_bytes ref_platform ?vault (js ''salt'') = Inr (sealed_salt ref_world)"
    and fi: "field_bytes ref_platform ?vault (js ''iv'') = Inr (sealed_iv ref_world)"
    and fd: "field_bytes ref_platform ?vault (js ''data'') =
       Inr (sealed_data ref_platform example_state example_password ref_world)"
    unfolding without_authHash
    by (simp_all add: field_bytes_def get_property_def ToString_value_def js_inj
        base64ToBuffer_text)
  have ga: "get_property ?vault (js ''authHash'') = Inr None"
    unfolding without_authHash by (simp add: get_property_def js_inj)
  show ?thesis
    by (simp add: HeraSecurity_unlock_fields [OF p fs fi fd ga refl])
qed

text \<open>
  Claim C9.  For every byte sequence \<open>b\<close>, \<open>bufferToBase64 b\<close> returns a text, and
  \<open>base64ToBuffer\<close> of that text returns \<open>b\<close>.
\<close>
theorem base64_codec_roundtrip:
  "\<exists>text. bufferToBase64 b = Inr text \<and> base64ToBuffer text = Inr b"
  using bufferToBase64_eq base64ToBuffer_text by blast

text \<open>The four bytes of \<open>Hera\<close>.\<close>

theorem base64_codec_roundtrip_witness:
  "bufferToBase64 [72, 101, 114, 97] = Inr (js ''SGVyYQ=='') \<and>
   base64ToBuffer (js ''SGVyYQ=='') = Inr [72, 101, 114, 97]"
proof -
  have e: "bufferToBase64 [72, 101, 114, 97] = Inr (js ''SGVyYQ=='')"
    by (simp add: bufferToBase64_eq base64_text_def b64_char_def js_def)
  with base64_codec_roundtrip [of "[72, 101, 114, 97]"] show ?thesis by auto
qed

end
